theory Spec2Isabelle
  imports Main "HOL-Library.Sublist"
begin

section \<open>The OpenFrontIO MCP agent (src/mcp/run_agent.py)\<close>

text \<open>
  The agent starts the MCP server as a child process, talks JSON-RPC to it over the
  child's standard input and output (class \<open>MCPClient\<close>), reads the child's diagnostic
  stream on a second thread, and runs a turn loop (class \<open>GameAgent\<close>, function
  \<open>main\<close>). This theory embeds those three pieces as HOL functions over an explicit
  state and proves what the specification says about them.
\<close>

subsection \<open>JSON values and the Python operations used on them\<close>

text \<open>
  What \<open>json.loads\<close> returns: \<open>None\<close>, a bool, a number, a \<open>str\<close>, a \<open>list\<close> or a
  \<open>dict\<close> with string keys. Numbers are integers here (a float takes the same branch as
  an integer wherever the agent looks at a value). A dict is an association list whose
  first binding of a key is the one looked up.
\<close>

datatype json =
    JNull
  | JBool bool
  | JInt int
  | JStr string
  | JList "json list"
  | JObj "(string \<times> json) list"

text \<open>
  The exceptions that the agent raises itself or that the Python operations it uses
  raise. The two \<open>RuntimeError\<close>s of \<open>send_request\<close> are told apart by their message;
  \<open>RuntimeError_mcp_error\<close> holds the value that the f-string
  \<open>f"MCP error: {response['error']}"\<close> formats into the message. \<open>OtherException\<close> is any
  further subclass of \<open>Exception\<close> (the LLM library's errors).
  \<open>KeyboardInterrupt\<close> is the one exception here that does not derive from \<open>Exception\<close>;
  \<open>ValueError\<close> stands for a \<open>ValueError\<close> that is not a \<open>JSONDecodeError\<close>.
\<close>

datatype py_exc =
    RuntimeError_closed_stdout
  | RuntimeError_mcp_error json
  | JSONDecodeError
  | ValueError
  | RecursionError
  | UnicodeDecodeError
  | TypeError
  | AttributeError
  | KeyError
  | IndexError
  | BrokenPipeError
  | TimeoutError
  | OtherException string
  | KeyboardInterrupt

text \<open>What \<open>except Exception\<close> catches.\<close>

fun is_Exception :: "py_exc \<Rightarrow> bool" where
  "is_Exception KeyboardInterrupt = False"
| "is_Exception _ = True"

text \<open>Python truthiness, as in \<open>if contents:\<close> and \<open>params or {}\<close>.\<close>

fun truthy :: "json \<Rightarrow> bool" where
  "truthy JNull = False"
| "truthy (JBool b) = b"
| "truthy (JInt n) = (n \<noteq> 0)"
| "truthy (JStr s) = (s \<noteq> [])"
| "truthy (JList xs) = (xs \<noteq> [])"
| "truthy (JObj kvs) = (kvs \<noteq> [])"

text \<open>\<open>needle in haystack\<close> on two \<open>str\<close>: a contiguous, case-sensitive occurrence.\<close>

fun str_in :: "string \<Rightarrow> string \<Rightarrow> bool" where
  "str_in needle [] = (needle = [])"
| "str_in needle (c # cs) = (prefix needle (c # cs) \<or> str_in needle cs)"

text \<open>\<open>x.get(key, default)\<close>: only a dict has the method.\<close>

fun py_get :: "json \<Rightarrow> string \<Rightarrow> json \<Rightarrow> py_exc + json" where
  "py_get (JObj kvs) key dflt = Inr (case map_of kvs key of Some v \<Rightarrow> v | None \<Rightarrow> dflt)"
| "py_get _ key dflt = Inl AttributeError"

text \<open>\<open>x[key]\<close> with a string key.\<close>

fun py_getitem :: "json \<Rightarrow> string \<Rightarrow> py_exc + json" where
  "py_getitem (JObj kvs) key = (case map_of kvs key of Some v \<Rightarrow> Inr v | None \<Rightarrow> Inl KeyError)"
| "py_getitem _ key = Inl TypeError"

text \<open>\<open>x[0]\<close>. A dict from JSON has string keys only, so the key \<open>0\<close> is missing.\<close>

fun py_index0 :: "json \<Rightarrow> py_exc + json" where
  "py_index0 (JList []) = Inl IndexError"
| "py_index0 (JList (x # xs)) = Inr x"
| "py_index0 (JStr []) = Inl IndexError"
| "py_index0 (JStr (c # cs)) = Inr (JStr [c])"
| "py_index0 (JObj kvs) = Inl KeyError"
| "py_index0 _ = Inl TypeError"

text \<open>\<open>key in x\<close> with a string key: a key of a dict, an element of a list, a substring of a \<open>str\<close>.\<close>

fun py_in :: "string \<Rightarrow> json \<Rightarrow> py_exc + bool" where
  "py_in key (JObj kvs) = Inr (map_of kvs key \<noteq> None)"
| "py_in key (JList xs) = Inr (JStr key \<in> set xs)"
| "py_in key (JStr s) = Inr (str_in key s)"
| "py_in key _ = Inl TypeError"

text \<open>Iterating a value with \<open>for\<close>: the elements of a list, the keys of a dict, the characters of a \<open>str\<close>.\<close>

fun py_iter :: "json \<Rightarrow> py_exc + json list" where
  "py_iter (JList xs) = Inr xs"
| "py_iter (JObj kvs) = Inr (map (\<lambda>kv. JStr (fst kv)) kvs)"
| "py_iter (JStr s) = Inr (map (\<lambda>c. JStr [c]) s)"
| "py_iter _ = Inl TypeError"

text \<open>\<open>len(x)\<close>.\<close>

definition py_len :: "json \<Rightarrow> py_exc + nat" where
  "py_len x = (case py_iter x of Inl e \<Rightarrow> Inl e | Inr xs \<Rightarrow> Inr (length xs))"

text \<open>
  The two functions of the standard library that the agent applies to what the server
  sends are parameters of the model, held in a \<open>pylib\<close>:
  \<^item> \<open>utf8_decode\<close> is \<open>bytes.decode('utf-8')\<close>: the text of the bytes, or \<open>None\<close> where it
    raises \<open>UnicodeDecodeError\<close>;
  \<^item> \<open>json_loads\<close> is \<open>json.loads\<close> on a \<open>str\<close>: the parsed value, or the exception it
    raises: \<open>JSONDecodeError\<close> for a text that is not JSON, a plain \<open>ValueError\<close> for an
    integer literal with more digits than the interpreter converts, \<open>RecursionError\<close> for
    a text nested too deeply.
\<close>

datatype loads_outcome =
    Loaded json
  | Raises_JSONDecodeError
  | Raises_ValueError
  | Raises_RecursionError

record pylib =
  utf8_decode :: "string \<Rightarrow> string option"
  json_loads :: "string \<Rightarrow> loads_outcome"

text \<open>\<open>json.loads(x)\<close>. An argument that is not a \<open>str\<close> raises \<open>TypeError\<close>.\<close>

fun py_json_loads :: "pylib \<Rightarrow> json \<Rightarrow> py_exc + json" where
  "py_json_loads lib (JStr s) =
     (case json_loads lib s of
        Loaded v \<Rightarrow> Inr v
      | Raises_JSONDecodeError \<Rightarrow> Inl JSONDecodeError
      | Raises_ValueError \<Rightarrow> Inl ValueError
      | Raises_RecursionError \<Rightarrow> Inl RecursionError)"
| "py_json_loads lib _ = Inl TypeError"

subsection \<open>MCPClient\<close>

text \<open>
  The client's state: its request counter and the two pipes of the child it talks
  through. \<open>stdin_log\<close> is what has been written to the child (one request object per
  line, in order), \<open>stdin_open\<close> is false once the pipe is broken, and \<open>stdout_lines\<close> are
  the lines the child will still deliver, as bytes and without their line feed.
\<close>

record mcp_client =
  request_id :: int
  stdin_log :: "json list"
  stdin_open :: bool
  stdout_lines :: "string list"

text \<open>
  \<open>self.process.stdout.readline()\<close>: the next line with its line feed, so that a blank
  line is not empty; the empty bytes only when the child's output has ended.
\<close>

fun readline :: "string list \<Rightarrow> string \<times> string list" where
  "readline [] = ([], [])"
| "readline (l # ls) = (l @ [CHR 0x0A], ls)"

text \<open>The request object built by \<open>send_request\<close>.\<close>

definition make_request :: "int \<Rightarrow> string \<Rightarrow> json option \<Rightarrow> json" where
  "make_request rid method params =
     JObj [(''jsonrpc'', JStr ''2.0''),
           (''id'', JInt rid),
           (''method'', JStr method),
           (''params'', (case params of
                           None \<Rightarrow> JObj []
                         | Some p \<Rightarrow> if truthy p then p else JObj []))]"

text \<open>
  The part of \<open>send_request\<close> after \<open>json.loads\<close>: the test \<open>"error" in response\<close>, the
  raise, and \<open>response.get("result")\<close>.
\<close>

definition handle_response :: "json \<Rightarrow> py_exc + json" where
  "handle_response response =
     (case py_in ''error'' response of
        Inl e \<Rightarrow> Inl e
      | Inr True \<Rightarrow>
          (case py_getitem response ''error'' of
             Inl e \<Rightarrow> Inl e
           | Inr err \<Rightarrow> Inl (RuntimeError_mcp_error err))
      | Inr False \<Rightarrow> py_get response ''result'' JNull)"

definition send_request ::
  "pylib \<Rightarrow> mcp_client \<Rightarrow> string \<Rightarrow> json option \<Rightarrow> mcp_client \<times> (py_exc + json)" where
  "send_request lib c method params =
     (let c1 = c\<lparr>request_id := request_id c + 1\<rparr>;
          request = make_request (request_id c1) method params
      in if \<not> stdin_open c1 then (c1, Inl BrokenPipeError)
         else
           let c2 = c1\<lparr>stdin_log := stdin_log c1 @ [request]\<rparr>;
               (response_line, rest) = readline (stdout_lines c2);
               c3 = c2\<lparr>stdout_lines := rest\<rparr>
           in if response_line = [] then (c3, Inl RuntimeError_closed_stdout)
              else (case utf8_decode lib response_line of
                      None \<Rightarrow> (c3, Inl UnicodeDecodeError)
                    | Some text \<Rightarrow>
                        (case py_json_loads lib (JStr text) of
                           Inl e \<Rightarrow> (c3, Inl e)
                         | Inr response \<Rightarrow> (c3, handle_response response))))"

definition list_resources :: "pylib \<Rightarrow> mcp_client \<Rightarrow> mcp_client \<times> (py_exc + json)" where
  "list_resources lib c =
     (case send_request lib c ''resources/list'' None of
        (c', Inl e) \<Rightarrow> (c', Inl e)
      | (c', Inr result) \<Rightarrow> (c', py_get result ''resources'' (JList [])))"

text \<open>The unwrapping done by \<open>read_resource\<close> on the result of its request.\<close>

definition first_text :: "json \<Rightarrow> py_exc + json" where
  "first_text result =
     (case py_get result ''contents'' (JList []) of
        Inl e \<Rightarrow> Inl e
      | Inr contents \<Rightarrow>
          if truthy contents
          then (case py_index0 contents of
                  Inl e \<Rightarrow> Inl e
                | Inr item \<Rightarrow> py_get item ''text'' (JStr []))
          else Inr (JStr []))"

definition read_resource :: "pylib \<Rightarrow> mcp_client \<Rightarrow> string \<Rightarrow> mcp_client \<times> (py_exc + json)" where
  "read_resource lib c uri =
     (case send_request lib c ''resources/read'' (Some (JObj [(''uri'', JStr uri)])) of
        (c', Inl e) \<Rightarrow> (c', Inl e)
      | (c', Inr result) \<Rightarrow> (c', first_text result))"

definition list_tools :: "pylib \<Rightarrow> mcp_client \<Rightarrow> mcp_client \<times> (py_exc + json)" where
  "list_tools lib c =
     (case send_request lib c ''tools/list'' None of
        (c', Inl e) \<Rightarrow> (c', Inl e)
      | (c', Inr result) \<Rightarrow> (c', py_get result ''tools'' (JList [])))"

text \<open>
  The unwrapping done by \<open>call_tool\<close>: the first content item's text is decoded, and a
  \<open>JSONDecodeError\<close> (no other exception) makes it return the text itself.
\<close>

definition unwrap_content :: "pylib \<Rightarrow> json \<Rightarrow> py_exc + json" where
  "unwrap_content lib result =
     (case py_get result ''content'' (JList []) of
        Inl e \<Rightarrow> Inl e
      | Inr contents \<Rightarrow>
          if truthy contents
          then (case py_index0 contents of
                  Inl e \<Rightarrow> Inl e
                | Inr item \<Rightarrow>
                    (case py_get item ''text'' (JStr []) of
                       Inl e \<Rightarrow> Inl e
                     | Inr text \<Rightarrow>
                         (case py_json_loads lib text of
                            Inr v \<Rightarrow> Inr v
                          | Inl e \<Rightarrow> if e = JSONDecodeError then Inr text else Inl e)))
          else Inr JNull)"

definition tool_call_params :: "string \<Rightarrow> json \<Rightarrow> json" where
  "tool_call_params name arguments = JObj [(''name'', JStr name), (''arguments'', arguments)]"

definition call_tool :: "pylib \<Rightarrow> mcp_client \<Rightarrow> string \<Rightarrow> json \<Rightarrow> mcp_client \<times> (py_exc + json)" where
  "call_tool lib c name arguments =
     (case send_request lib c ''tools/call'' (Some (tool_call_params name arguments)) of
        (c', Inl e) \<Rightarrow> (c', Inl e)
      | (c', Inr result) \<Rightarrow> (c', unwrap_content lib result))"

subsection \<open>The diagnostic stream\<close>

text \<open>
  \<open>_read_stderr\<close> runs on its own thread over the lines of the child's standard error.
  Each line is decoded, stripped and put on \<open>stderr_queue\<close>; it is printed unless it
  contains one of five fixed substrings. A line that does not decode raises
  \<open>UnicodeDecodeError\<close> in the thread, which ends there: the lines after it are never
  read. Text is held with one \<open>char\<close> per code point (code points below 256);
  \<open>is_space\<close> is \<open>str.isspace\<close> on those.
\<close>

definition is_space :: "char \<Rightarrow> bool" where
  "is_space c =
     (let n = (of_char c :: nat)
      in (9 \<le> n \<and> n \<le> 13) \<or> (28 \<le> n \<and> n \<le> 32) \<or> n = 133 \<or> n = 160)"

definition strip :: "string \<Rightarrow> string" where
  "strip s = rev (dropWhile is_space (rev (dropWhile is_space s)))"

definition noise_substrings :: "string list" where
  "noise_substrings =
     [''Received game update'',
      ''Broadcasting game update'',
      ''Game state updated'',
      ''Tick:'',
      ''packedTileUpdates'']"

text \<open>\<open>any(noise in decoded for noise in [...])\<close>.\<close>

definition is_noise :: "string \<Rightarrow> bool" where
  "is_noise decoded = list_ex (\<lambda>noise. str_in noise decoded) noise_substrings"

record stderr_state =
  stderr_queue :: "string list"
  printed :: "string list"

fun read_stderr :: "pylib \<Rightarrow> string list \<Rightarrow> stderr_state \<Rightarrow> stderr_state" where
  "read_stderr lib [] st = st"
| "read_stderr lib (line # lines) st =
     (case utf8_decode lib line of
        None \<Rightarrow> st
      | Some text \<Rightarrow>
          (let decoded = strip text;
               st1 = st\<lparr>stderr_queue := stderr_queue st @ [decoded]\<rparr>
           in if is_noise decoded then read_stderr lib lines st1
              else read_stderr lib lines
                     (st1\<lparr>printed := printed st1 @ [''[MCP Server] '' @ decoded]\<rparr>)))"

text \<open>The texts of the lines that the reader thread gets to: those before the first line
  that does not decode.\<close>

fun decoded_lines :: "pylib \<Rightarrow> string list \<Rightarrow> string list" where
  "decoded_lines lib [] = []"
| "decoded_lines lib (line # lines) =
     (case utf8_decode lib line of
        None \<Rightarrow> []
      | Some text \<Rightarrow> text # decoded_lines lib lines)"

text \<open>
  \<open>wait_for_connection\<close> takes lines off the queue until one contains the sentinel. Its
  argument is the lines that reach the queue before the timeout; when none of them has
  the sentinel it raises \<open>TimeoutError\<close>.
\<close>

fun wait_for_connection :: "string list \<Rightarrow> py_exc + bool" where
  "wait_for_connection [] = Inl TimeoutError"
| "wait_for_connection (line # queue) =
     (if str_in ''Game connected successfully'' line then Inr True
      else wait_for_connection queue)"

subsection \<open>GameAgent\<close>

text \<open>
  What the agent prints, as events. The banner lines that carry no information are left
  out. The last three events are the clean-up of \<open>main\<close>: \<open>terminate()\<close> and \<open>kill()\<close> on
  the child, between the two messages.
\<close>

datatype log_event =
    LogToolsLoaded nat
  | LogTool json json
  | LogMapLoaded
  | LogMapWarning py_exc
  | LogLoopStart
  | LogTurn int
  | LogThinking
  | LogToolCall string json
  | LogToolResult json
  | LogAIText "string option"
  | LogTurnError py_exc
  | LogStopping
  | LogFatal py_exc
  | LogCleanup
  | ProcTerminate
  | ProcKill
  | LogGoodbye

record game_agent =
  mcp :: mcp_client
  tools :: json
  map_summary :: json
  turn_count :: int
  console :: "log_event list"

definition new_agent :: "mcp_client \<Rightarrow> game_agent" where
  "new_agent c = \<lparr>mcp = c, tools = JList [], map_summary = JNull, turn_count = 0, console = []\<rparr>"

definition say :: "log_event \<Rightarrow> game_agent \<Rightarrow> game_agent" where
  "say ev a = a\<lparr>console := console a @ [ev]\<rparr>"

text \<open>The loop of \<open>initialize\<close> that prints each tool's name and description.\<close>

fun print_tools :: "json list \<Rightarrow> game_agent \<Rightarrow> game_agent \<times> (py_exc + unit)" where
  "print_tools [] a = (a, Inr ())"
| "print_tools (tool # rest) a =
     (case py_getitem tool ''name'' of
        Inl e \<Rightarrow> (a, Inl e)
      | Inr name \<Rightarrow>
          (case py_get tool ''description'' (JStr ''No description'') of
             Inl e \<Rightarrow> (a, Inl e)
           | Inr description \<Rightarrow> print_tools rest (say (LogTool name description) a)))"

definition initialize :: "pylib \<Rightarrow> game_agent \<Rightarrow> game_agent \<times> (py_exc + unit)" where
  "initialize lib a =
     (case list_tools lib (mcp a) of
        (c1, Inl e) \<Rightarrow> (a\<lparr>mcp := c1\<rparr>, Inl e)
      | (c1, Inr ts) \<Rightarrow>
          (let a1 = a\<lparr>mcp := c1, tools := ts\<rparr>
           in case py_len ts of
                Inl e \<Rightarrow> (a1, Inl e)
              | Inr n \<Rightarrow>
                  (case py_iter ts of
                     Inl e \<Rightarrow> (say (LogToolsLoaded n) a1, Inl e)
                   | Inr items \<Rightarrow>
                       (case print_tools items (say (LogToolsLoaded n) a1) of
                          (a2, Inl e) \<Rightarrow> (a2, Inl e)
                        | (a2, Inr u) \<Rightarrow>
                            (case read_resource lib (mcp a2) ''game://map/summary'' of
                               (c2, Inr summary) \<Rightarrow>
                                 (say LogMapLoaded (a2\<lparr>mcp := c2, map_summary := summary\<rparr>), Inr ())
                             | (c2, Inl e) \<Rightarrow>
                                 if is_Exception e
                                 then (say (LogMapWarning e) (a2\<lparr>mcp := c2\<rparr>), Inr ())
                                 else (a2\<lparr>mcp := c2\<rparr>, Inl e))))))"

definition get_game_state :: "pylib \<Rightarrow> game_agent \<Rightarrow> game_agent \<times> (py_exc + json)" where
  "get_game_state lib a =
     (case read_resource lib (mcp a) ''game://state'' of
        (c, Inl e) \<Rightarrow> (a\<lparr>mcp := c\<rparr>, Inl e)
      | (c, Inr state_json) \<Rightarrow> (a\<lparr>mcp := c\<rparr>, py_json_loads lib state_json))"

text \<open>One entry of the list built by \<open>convert_mcp_tools_to_openai_format\<close>.\<close>

definition openai_tool :: "json \<Rightarrow> json \<Rightarrow> json \<Rightarrow> json" where
  "openai_tool name description parameters =
     JObj [(''type'', JStr ''function''),
           (''function'', JObj [(''name'', name),
                                (''description'', description),
                                (''parameters'', parameters)])]"

fun convert_tools :: "json list \<Rightarrow> py_exc + json list" where
  "convert_tools [] = Inr []"
| "convert_tools (tool # rest) =
     (case py_getitem tool ''name'' of
        Inl e \<Rightarrow> Inl e
      | Inr name \<Rightarrow>
          (case py_get tool ''description'' (JStr []) of
             Inl e \<Rightarrow> Inl e
           | Inr description \<Rightarrow>
               (case py_get tool ''inputSchema'' (JObj []) of
                  Inl e \<Rightarrow> Inl e
                | Inr parameters \<Rightarrow>
                    (case convert_tools rest of
                       Inl e \<Rightarrow> Inl e
                     | Inr openai_tools \<Rightarrow>
                         Inr (openai_tool name description parameters # openai_tools)))))"

definition convert_mcp_tools_to_openai_format :: "game_agent \<Rightarrow> py_exc + json list" where
  "convert_mcp_tools_to_openai_format a =
     (case py_iter (tools a) of
        Inl e \<Rightarrow> Inl e
      | Inr ts \<Rightarrow> convert_tools ts)"

text \<open>
  What the agent reads of the LLM's answer: \<open>message.content\<close> and \<open>message.tool_calls\<close>
  (\<open>None\<close> when the attribute is missing or \<open>None\<close>), each tool call with
  \<open>function.name\<close> and \<open>function.arguments\<close>, the latter a JSON text.
\<close>

record tool_call =
  function_name :: string
  function_arguments :: string

record llm_message =
  content :: "string option"
  tool_calls :: "tool_call list option"

text \<open>
  What a turn uses from outside the MCP client:
  \<^item> \<open>py\<close>, the standard library;
  \<^item> \<open>construct_prompt\<close>, the prompt text built from the game state, or the exception
    raised while building it (the wording of the prompt is not part of this model);
  \<^item> \<open>llm\<close>, the decision engine: in turn number \<open>n\<close>, given the prompt and the tool list
    (\<open>None\<close> when the list is empty), the message \<open>response.choices[0].message\<close> or the
    exception raised by the request or by that expression;
  \<^item> \<open>sleep\<close>, the pause after turn \<open>n\<close>: \<open>None\<close> when \<open>time.sleep\<close> returns, the exception
    when it is interrupted.
\<close>

record env =
  py :: pylib
  construct_prompt :: "json \<Rightarrow> py_exc + string"
  llm :: "int \<Rightarrow> string \<Rightarrow> json list option \<Rightarrow> py_exc + llm_message"
  sleep :: "int \<Rightarrow> py_exc option"

text \<open>The \<open>for tool_call in message.tool_calls\<close> loop of \<open>execute_turn\<close>.\<close>

fun run_tool_calls :: "pylib \<Rightarrow> game_agent \<Rightarrow> tool_call list \<Rightarrow> game_agent \<times> (py_exc + unit)" where
  "run_tool_calls lib a [] = (a, Inr ())"
| "run_tool_calls lib a (tc # tcs) =
     (case py_json_loads lib (JStr (function_arguments tc)) of
        Inl e \<Rightarrow> (a, Inl e)
      | Inr arguments \<Rightarrow>
          (let a1 = say (LogToolCall (function_name tc) arguments) a
           in case call_tool lib (mcp a1) (function_name tc) arguments of
                (c, Inl e) \<Rightarrow> (a1\<lparr>mcp := c\<rparr>, Inl e)
              | (c, Inr result) \<Rightarrow>
                  run_tool_calls lib (say (LogToolResult result) (a1\<lparr>mcp := c\<rparr>)) tcs))"

text \<open>The body of the \<open>try\<close> of \<open>execute_turn\<close>.\<close>

definition turn_body :: "env \<Rightarrow> game_agent \<Rightarrow> game_agent \<times> (py_exc + unit)" where
  "turn_body ev a =
     (case get_game_state (py ev) a of
        (a1, Inl e) \<Rightarrow> (a1, Inl e)
      | (a1, Inr game_state) \<Rightarrow>
          (case construct_prompt ev game_state of
             Inl e \<Rightarrow> (a1, Inl e)
           | Inr prompt \<Rightarrow>
               (let a2 = say LogThinking a1
                in case convert_mcp_tools_to_openai_format a2 of
                     Inl e \<Rightarrow> (a2, Inl e)
                   | Inr openai_tools \<Rightarrow>
                       (case llm ev (turn_count a2) prompt
                               (if openai_tools \<noteq> [] then Some openai_tools else None) of
                          Inl e \<Rightarrow> (a2, Inl e)
                        | Inr message \<Rightarrow>
                            (case tool_calls message of
                               Some (tc # tcs) \<Rightarrow> run_tool_calls (py ev) a2 (tc # tcs)
                             | _ \<Rightarrow> (say (LogAIText (content message)) a2, Inr ()))))))"

text \<open>\<open>execute_turn\<close>: the counter, the \<open>try\<close> and its \<open>except Exception\<close>.\<close>

definition execute_turn :: "env \<Rightarrow> game_agent \<Rightarrow> game_agent \<times> (py_exc + unit)" where
  "execute_turn ev a =
     (let a0 = a\<lparr>turn_count := turn_count a + 1\<rparr>;
          a1 = say (LogTurn (turn_count a0)) a0
      in case turn_body ev a1 of
           (a2, Inr u) \<Rightarrow> (a2, Inr ())
         | (a2, Inl e) \<Rightarrow>
             if is_Exception e then (say (LogTurnError e) a2, Inr ())
             else (a2, Inl e))"

subsection \<open>main\<close>

text \<open>
  The \<open>while True\<close> loop of \<open>main\<close>, observed for at most \<open>n\<close> turns: \<open>Some e\<close> is the
  exception that left the loop, \<open>None\<close> says that the loop is still running after \<open>n\<close>
  turns.
\<close>

fun turn_loop :: "env \<Rightarrow> nat \<Rightarrow> game_agent \<Rightarrow> game_agent \<times> py_exc option" where
  "turn_loop ev 0 a = (a, None)"
| "turn_loop ev (Suc n) a =
     (case execute_turn ev a of
        (a1, Inl e) \<Rightarrow> (a1, Some e)
      | (a1, Inr u) \<Rightarrow>
          (case sleep ev (turn_count a1) of
             Some e \<Rightarrow> (a1, Some e)
           | None \<Rightarrow> turn_loop ev n a1))"

text \<open>
  The handlers of \<open>main\<close> and its \<open>finally\<close>: \<open>graceful\<close> says whether the child exits
  within the five seconds of \<open>wait\<close>.
\<close>

definition shutdown :: "bool \<Rightarrow> log_event list \<Rightarrow> py_exc \<Rightarrow> log_event list" where
  "shutdown graceful con e =
     con
     @ (if e = KeyboardInterrupt then [LogStopping]
        else if is_Exception e then [LogFatal e] else [])
     @ [LogCleanup, ProcTerminate]
     @ (if graceful then [] else [ProcKill])
     @ [LogGoodbye]"

datatype main_result =
    is_StillLooping: StillLooping (looping_agent: game_agent)
  | Exited (final_console: "log_event list")

text \<open>
  \<open>main\<close>, from the creation of the client on. \<open>queue\<close> is the argument of
  \<open>wait_for_connection\<close>, \<open>c\<close> the client as created, \<open>n\<close> the number of turns observed.
\<close>

definition main :: "env \<Rightarrow> string list \<Rightarrow> mcp_client \<Rightarrow> bool \<Rightarrow> nat \<Rightarrow> main_result" where
  "main ev queue c graceful n =
     (case wait_for_connection queue of
        Inl e \<Rightarrow> Exited (shutdown graceful [] e)
      | Inr ok \<Rightarrow>
          (case initialize (py ev) (new_agent c) of
             (a1, Inl e) \<Rightarrow> Exited (shutdown graceful (console a1) e)
           | (a1, Inr u) \<Rightarrow>
               (case turn_loop ev n (say LogLoopStart a1) of
                  (a2, Some e) \<Rightarrow> Exited (shutdown graceful (console a2) e)
                | (a2, None) \<Rightarrow> StillLooping a2)))"

subsection \<open>Sample traffic\<close>

text \<open>
  Lines as the server writes them, without their line feed, and the values
  \<open>json.loads\<close> gives for them. They are the concrete inputs of the examples below.
  \<open>big_int_text\<close> is an integer literal of 4301 digits, one more than the interpreter
  converts: \<open>json.loads\<close> raises \<open>ValueError\<close> on it.
\<close>

definition line_error :: string where
  \<open>line_error = ''{"jsonrpc":"2.0","id":1,"error":{"code":-1,"message":"bad"}}''\<close>

definition line_other_id :: string where
  \<open>line_other_id = ''{"jsonrpc":"2.0","id":99,"result":{"tools":[]}}''\<close>

definition line_one_tool :: string where
  \<open>line_one_tool = ''{"jsonrpc":"2.0","id":1,"result":{"tools":[{"name":"game.send_intent","description":"d","inputSchema":{}}]}}''\<close>

definition line_no_contents :: string where
  \<open>line_no_contents = ''{"jsonrpc":"2.0","id":1,"result":{}}''\<close>

definition line_empty_contents :: string where
  \<open>line_empty_contents = ''{"jsonrpc":"2.0","id":1,"result":{"contents":[]}}''\<close>

definition line_no_text :: string where
  \<open>line_no_text = ''{"jsonrpc":"2.0","id":1,"result":{"contents":[{"uri":"game://state"}]}}''\<close>

definition line_empty_content :: string where
  \<open>line_empty_content = ''{"jsonrpc":"2.0","id":1,"result":{"content":[]}}''\<close>

definition line_content_json :: string where
  \<open>line_content_json = ''{"jsonrpc":"2.0","id":1,"result":{"content":[{"type":"text","text":"[1, 2]"}]}}''\<close>

definition line_content_raw :: string where
  \<open>line_content_raw = ''{"jsonrpc":"2.0","id":1,"result":{"content":[{"type":"text","text":"Intent sent"}]}}''\<close>

definition line_state :: string where
  \<open>line_state = ''{"jsonrpc":"2.0","id":1,"result":{"contents":[{"uri":"game://state","text":"{}"}]}}''\<close>

definition big_int_text :: string where
  "big_int_text = replicate 4301 CHR ''9''"

definition line_content_big :: string where
  \<open>line_content_big = ''{"jsonrpc":"2.0","id":1,"result":{"content":[{"type":"text","text":"'' @ big_int_text @ ''"}]}}''\<close>

definition response_of :: "json \<Rightarrow> (string \<times> json) \<Rightarrow> json" where
  "response_of rid body = JObj [(''jsonrpc'', JStr ''2.0''), (''id'', rid), body]"

definition error_bad :: json where
  "error_bad = JObj [(''code'', JInt (- 1)), (''message'', JStr ''bad'')]"

definition tool_send_intent :: json where
  "tool_send_intent =
     JObj [(''name'', JStr ''game.send_intent''), (''description'', JStr ''d''), (''inputSchema'', JObj [])]"

text \<open>
  \<open>sample_loads\<close> is \<open>json.loads\<close> restricted to the texts of the examples: the lines
  above as \<open>send_request\<close> reads them, with their line feed, and the texts inside them.
  Any other text counts as not being JSON.
\<close>

definition sample_loads :: "string \<Rightarrow> loads_outcome" where
  "sample_loads s =
     (if s = line_error @ [CHR 0x0A] then
        Loaded (response_of (JInt 1) (''error'', error_bad))
      else if s = line_other_id @ [CHR 0x0A] then
        Loaded (response_of (JInt 99) (''result'', JObj [(''tools'', JList [])]))
      else if s = line_one_tool @ [CHR 0x0A] then
        Loaded (response_of (JInt 1) (''result'', JObj [(''tools'', JList [tool_send_intent])]))
      else if s = line_no_contents @ [CHR 0x0A] then
        Loaded (response_of (JInt 1) (''result'', JObj []))
      else if s = line_empty_contents @ [CHR 0x0A] then
        Loaded (response_of (JInt 1) (''result'', JObj [(''contents'', JList [])]))
      else if s = line_no_text @ [CHR 0x0A] then
        Loaded (response_of (JInt 1)
                 (''result'', JObj [(''contents'', JList [JObj [(''uri'', JStr ''game://state'')]])]))
      else if s = line_empty_content @ [CHR 0x0A] then
        Loaded (response_of (JInt 1) (''result'', JObj [(''content'', JList [])]))
      else if s = line_content_json @ [CHR 0x0A] then
        Loaded (response_of (JInt 1)
                 (''result'', JObj [(''content'',
                    JList [JObj [(''type'', JStr ''text''), (''text'', JStr ''[1, 2]'')]])]))
      else if s = line_content_raw @ [CHR 0x0A] then
        Loaded (response_of (JInt 1)
                 (''result'', JObj [(''content'',
                    JList [JObj [(''type'', JStr ''text''), (''text'', JStr ''Intent sent'')]])]))
      else if s = line_state @ [CHR 0x0A] then
        Loaded (response_of (JInt 1)
                 (''result'', JObj [(''contents'',
                    JList [JObj [(''uri'', JStr ''game://state''), (''text'', JStr ''{}'')]])]))
      else if s = line_content_big @ [CHR 0x0A] then
        Loaded (response_of (JInt 1)
                 (''result'', JObj [(''content'',
                    JList [JObj [(''type'', JStr ''text''), (''text'', JStr big_int_text)]])]))
      else if s = ''[1, 2]'' then Loaded (JList [JInt 1, JInt 2])
      else if s = ''{}'' then Loaded (JObj [])
      else if s = big_int_text then Raises_ValueError
      else Raises_JSONDecodeError)"

text \<open>
  \<open>sample_decode\<close> is \<open>bytes.decode('utf-8')\<close> restricted to ASCII bytes, which are their
  own text; bytes with anything else count as not decodable (the byte \<open>0xFF\<close> used below
  is valid nowhere in UTF-8).
\<close>

definition sample_decode :: "string \<Rightarrow> string option" where
  "sample_decode bytes =
     (if list_all (\<lambda>c. (of_char c :: nat) < 128) bytes then Some bytes else None)"

definition sample_lib :: pylib where
  "sample_lib = \<lparr>utf8_decode = sample_decode, json_loads = sample_loads\<rparr>"

text \<open>A fresh client whose server will answer with the given lines.\<close>

definition client_reading :: "string list \<Rightarrow> mcp_client" where
  "client_reading lines = \<lparr>request_id = 0, stdin_log = [], stdin_open = True, stdout_lines = lines\<rparr>"

subsection \<open>Matching without regard to case\<close>

text \<open>
  The specification speaks of a noise substring found "regardless of casing". That
  reading, written out for comparison with \<open>is_noise\<close>: both texts are put in lower case
  (ASCII letters) before the search.
\<close>

definition lower_ascii :: "char \<Rightarrow> char" where
  "lower_ascii c =
     (case map_of (zip ''ABCDEFGHIJKLMNOPQRSTUVWXYZ'' ''abcdefghijklmnopqrstuvwxyz'') c of
        Some l \<Rightarrow> l
      | None \<Rightarrow> c)"

definition str_in_any_case :: "string \<Rightarrow> string \<Rightarrow> bool" where
  "str_in_any_case needle s = str_in (map lower_ascii needle) (map lower_ascii s)"

definition is_noise_any_case :: "string \<Rightarrow> bool" where
  "is_noise_any_case decoded = list_ex (\<lambda>noise. str_in_any_case noise decoded) noise_substrings"

text \<open>The reader thread's state before the first line.\<close>

definition stderr_start :: stderr_state where
  "stderr_start = \<lparr>stderr_queue = [], printed = []\<rparr>"


text \<open>A fresh agent on a fresh client, and two tool calls as an LLM returns them.\<close>

definition agent_reading :: "string list \<Rightarrow> game_agent" where
  "agent_reading lines = new_agent (client_reading lines)"


definition call_send_intent :: tool_call where
  "call_send_intent = \<lparr>function_name = ''game.send_intent'', function_arguments = ''{}''\<rparr>"

text \<open>
  Collaborators for the examples: the prompt is always built and the pause is never
  interrupted; the LLM of \<open>tool_env\<close> always asks for one tool call, that of
  \<open>sample_env\<close> always answers with text and no tool call.
\<close>

definition tool_env :: env where
  "tool_env =
     \<lparr>py = sample_lib,
      construct_prompt = (\<lambda>game_state. Inr ''You are playing OpenFrontIO.''),
      llm = (\<lambda>turn prompt openai_tools.
               Inr \<lparr>content = None, tool_calls = Some [call_send_intent]\<rparr>),
      sleep = (\<lambda>turn. None)\<rparr>"

definition sample_env :: env where
  "sample_env =
     \<lparr>py = sample_lib,
      construct_prompt = (\<lambda>game_state. Inr ''You are playing OpenFrontIO.''),
      llm = (\<lambda>turn prompt openai_tools. Inr \<lparr>content = Some ''Expand.'', tool_calls = None\<rparr>),
      sleep = (\<lambda>turn. None)\<rparr>"

section \<open>Properties\<close>

subsection \<open>Auxiliary facts\<close>

text \<open>The sample texts are told apart, decoded and parsed as expected.\<close>

lemmas sample_lines =
  line_error_def line_other_id_def line_one_tool_def line_no_contents_def
  line_empty_contents_def line_no_text_def line_empty_content_def
  line_content_json_def line_content_raw_def line_state_def

lemma big_lengths:
  "length big_int_text = 4301" "length line_content_big = 4374"
  by (simp_all add: big_int_text_def line_content_big_def)

lemma big_distinct:
  "length s < 4301 \<Longrightarrow> (s = big_int_text) = False"
  "length s < 4301 \<Longrightarrow> (big_int_text = s) = False"
  "length s < 4301 \<Longrightarrow> (s = line_content_big) = False"
  "length s < 4301 \<Longrightarrow> (line_content_big = s) = False"
  "length s < 4301 \<Longrightarrow> (s = line_content_big @ [CHR 0x0A]) = False"
  "(big_int_text = line_content_big @ [CHR 0x0A]) = False"
  using big_lengths by (auto dest: arg_cong [where f = length])

lemma sample_loaded:
  "sample_loads (line_error @ [CHR 0x0A]) = Loaded (response_of (JInt 1) (''error'', error_bad))"
  "sample_loads (line_other_id @ [CHR 0x0A])
     = Loaded (response_of (JInt 99) (''result'', JObj [(''tools'', JList [])]))"
  "sample_loads (line_one_tool @ [CHR 0x0A])
     = Loaded (response_of (JInt 1) (''result'', JObj [(''tools'', JList [tool_send_intent])]))"
  "sample_loads (line_no_contents @ [CHR 0x0A]) = Loaded (response_of (JInt 1) (''result'', JObj []))"
  "sample_loads (line_empty_contents @ [CHR 0x0A])
     = Loaded (response_of (JInt 1) (''result'', JObj [(''contents'', JList [])]))"
  "sample_loads (line_no_text @ [CHR 0x0A])
     = Loaded (response_of (JInt 1)
                 (''result'', JObj [(''contents'', JList [JObj [(''uri'', JStr ''game://state'')]])]))"
  "sample_loads (line_empty_content @ [CHR 0x0A])
     = Loaded (response_of (JInt 1) (''result'', JObj [(''content'', JList [])]))"
  "sample_loads (line_content_json @ [CHR 0x0A])
     = Loaded (response_of (JInt 1)
                 (''result'', JObj [(''content'',
                    JList [JObj [(''type'', JStr ''text''), (''text'', JStr ''[1, 2]'')]])]))"
  "sample_loads (line_content_raw @ [CHR 0x0A])
     = Loaded (response_of (JInt 1)
                 (''result'', JObj [(''content'',
                    JList [JObj [(''type'', JStr ''text''), (''text'', JStr ''Intent sent'')]])]))"
  "sample_loads (line_state @ [CHR 0x0A])
     = Loaded (response_of (JInt 1)
                 (''result'', JObj [(''contents'',
                    JList [JObj [(''uri'', JStr ''game://state''), (''text'', JStr ''{}'')]])]))"
  "sample_loads (line_content_big @ [CHR 0x0A])
     = Loaded (response_of (JInt 1)
                 (''result'', JObj [(''content'',
                    JList [JObj [(''type'', JStr ''text''), (''text'', JStr big_int_text)]])]))"
  "sample_loads ''[1, 2]'' = Loaded (JList [JInt 1, JInt 2])"
  "sample_loads ''{}'' = Loaded (JObj [])"
  "sample_loads ''Intent sent'' = Raises_JSONDecodeError"
  "sample_loads big_int_text = Raises_ValueError"
  by (simp_all add: sample_loads_def sample_lines big_distinct)

lemma sample_decode_ascii:
  "list_all (\<lambda>c. (of_char c :: nat) < 128) bytes \<Longrightarrow> sample_decode bytes = Some bytes"
  by (simp add: sample_decode_def)

lemma sample_decoded:
  "sample_decode (line_error @ [CHR 0x0A]) = Some (line_error @ [CHR 0x0A])"
  "sample_decode (line_other_id @ [CHR 0x0A]) = Some (line_other_id @ [CHR 0x0A])"
  "sample_decode (line_one_tool @ [CHR 0x0A]) = Some (line_one_tool @ [CHR 0x0A])"
  "sample_decode (line_no_contents @ [CHR 0x0A]) = Some (line_no_contents @ [CHR 0x0A])"
  "sample_decode (line_empty_contents @ [CHR 0x0A]) = Some (line_empty_contents @ [CHR 0x0A])"
  "sample_decode (line_no_text @ [CHR 0x0A]) = Some (line_no_text @ [CHR 0x0A])"
  "sample_decode (line_empty_content @ [CHR 0x0A]) = Some (line_empty_content @ [CHR 0x0A])"
  "sample_decode (line_content_json @ [CHR 0x0A]) = Some (line_content_json @ [CHR 0x0A])"
  "sample_decode (line_content_raw @ [CHR 0x0A]) = Some (line_content_raw @ [CHR 0x0A])"
  "sample_decode (line_state @ [CHR 0x0A]) = Some (line_state @ [CHR 0x0A])"
  "sample_decode (line_content_big @ [CHR 0x0A]) = Some (line_content_big @ [CHR 0x0A])"
  by (rule sample_decode_ascii, simp add: sample_lines line_content_big_def big_int_text_def list_all_iff)+

text \<open>\<open>send_request\<close> on a line that decodes and parses, and at the end of the output.\<close>

lemma send_request_reads:
  assumes "stdin_open c" and "stdout_lines c = line # rest"
    and "utf8_decode lib (line @ [CHR 0x0A]) = Some text"
    and "json_loads lib text = Loaded response"
  shows "send_request lib c method params =
    (c\<lparr>request_id := request_id c + 1,
       stdin_log := stdin_log c @ [make_request (request_id c + 1) method params],
       stdout_lines := rest\<rparr>, handle_response response)"
  using assms by (simp add: send_request_def Let_def)

lemma send_request_eof:
  assumes "stdin_open c" and "stdout_lines c = []"
  shows "send_request lib c method params =
    (c\<lparr>request_id := request_id c + 1,
       stdin_log := stdin_log c @ [make_request (request_id c + 1) method params],
       stdout_lines := []\<rparr>, Inl RuntimeError_closed_stdout)"
  using assms by (simp add: send_request_def Let_def)



text \<open>\<open>str_in\<close> finds exactly the contiguous occurrences.\<close>

lemma str_in_iff: "str_in n s \<longleftrightarrow> (\<exists>p q. s = p @ n @ q)"
proof (induction s)
  case Nil
  then show ?case by auto
next
  case (Cons c cs)
  show ?case
  proof
    assume "str_in n (c # cs)"
    then consider "prefix n (c # cs)" | "str_in n cs" by auto
    then show "\<exists>p q. c # cs = p @ n @ q"
    proof cases
      case 1
      then obtain q where "c # cs = n @ q" by (auto simp: prefix_def)
      then have "c # cs = [] @ n @ q" by simp
      then show ?thesis by blast
    next
      case 2
      with Cons.IH obtain p q where "cs = p @ n @ q" by blast
      then have "c # cs = (c # p) @ n @ q" by simp
      then show ?thesis by blast
    qed
  next
    assume "\<exists>p q. c # cs = p @ n @ q"
    then obtain p q where pq: "c # cs = p @ n @ q" by blast
    show "str_in n (c # cs)"
    proof (cases p)
      case Nil
      with pq have "prefix n (c # cs)" by (simp add: prefix_def)
      then show ?thesis by simp
    next
      case (Cons a p')
      with pq have "cs = p' @ n @ q" by simp
      with Cons.IH have "str_in n cs" by blast
      then show ?thesis by simp
    qed
  qed
qed

text \<open>Stripping a line neither removes nor creates an occurrence of a text that begins and
  ends with a character other than white space.\<close>

lemma dropWhile_keeps_occurrence:
  assumes "n \<noteq> []" and "\<not> P (hd n)"
  shows "\<exists>p'. dropWhile P (p @ n @ q) = p' @ n @ q"
proof (induction p)
  case Nil
  from assms obtain a n' where "n = a # n'" "\<not> P a" by (cases n) auto
  then have "dropWhile P ([] @ n @ q) = [] @ n @ q" by simp
  then show ?case by blast
next
  case (Cons x p)
  show ?case
  proof (cases "P x")
    case True
    with Cons.IH show ?thesis by simp
  next
    case False
    then have "dropWhile P ((x # p) @ n @ q) = (x # p) @ n @ q" by simp
    then show ?thesis by blast
  qed
qed

lemma strip_inside: "\<exists>t1 t2. l = t1 @ strip l @ t2"
proof -
  let ?d = "dropWhile is_space l"
  have "l = takeWhile is_space l @ ?d" by simp
  moreover have "rev ?d = takeWhile is_space (rev ?d) @ dropWhile is_space (rev ?d)" by simp
  then have "?d = rev (dropWhile is_space (rev ?d)) @ rev (takeWhile is_space (rev ?d))"
    by (metis rev_append rev_rev_ident)
  then have "?d = strip l @ rev (takeWhile is_space (rev ?d))" by (simp add: strip_def)
  ultimately have "l = takeWhile is_space l @ strip l @ rev (takeWhile is_space (rev ?d))"
    by simp
  then show ?thesis by blast
qed

lemma strip_keeps_occurrence:
  assumes "n \<noteq> []" and "\<not> is_space (hd n)" and "\<not> is_space (last n)"
  shows "str_in n (strip l) \<longleftrightarrow> str_in n l"
proof
  assume "str_in n (strip l)"
  then obtain p q where "strip l = p @ n @ q" by (auto simp: str_in_iff)
  moreover obtain t1 t2 where "l = t1 @ strip l @ t2" using strip_inside by blast
  ultimately have "l = (t1 @ p) @ n @ (q @ t2)" by simp
  then show "str_in n l" unfolding str_in_iff by blast
next
  assume "str_in n l"
  then obtain p q where "l = p @ n @ q" by (auto simp: str_in_iff)
  then obtain p' where d: "dropWhile is_space l = p' @ n @ q"
    using dropWhile_keeps_occurrence [of n is_space p q] assms by blast
  have "rev n \<noteq> []" "\<not> is_space (hd (rev n))"
    using assms by (simp_all add: hd_rev)
  then obtain q' where "dropWhile is_space (rev q @ rev n @ rev p') = q' @ rev n @ rev p'"
    using dropWhile_keeps_occurrence [of "rev n" is_space "rev q" "rev p'"] by blast
  with d have "strip l = p' @ n @ rev q'" by (simp add: strip_def)
  then show "str_in n (strip l)" unfolding str_in_iff by blast
qed

lemma is_noise_strip: "is_noise (strip l) = is_noise l"
  by (simp add: is_noise_def noise_substrings_def strip_keeps_occurrence is_space_def)

lemma printed_read_stderr:
  "printed (read_stderr lib lines st) =
     printed st @ map (\<lambda>d. ''[MCP Server] '' @ strip d)
                      (filter (\<lambda>d. \<not> is_noise d) (decoded_lines lib lines))"
  by (induction lines arbitrary: st) (simp_all add: Let_def is_noise_strip split: option.splits)







text \<open>The entries built from well-formed tool descriptors.\<close>

lemma convert_tools_entries:
  assumes "\<forall>t \<in> set ts. \<exists>kvs n d s. t = JObj kvs \<and> map_of kvs ''name'' = Some n \<and>
             map_of kvs ''description'' = Some d \<and> map_of kvs ''inputSchema'' = Some s"
  shows "\<exists>out. convert_tools ts = Inr out \<and> length out = length ts \<and>
           (\<forall>i < length ts. \<exists>f. py_getitem (out ! i) ''function'' = Inr f \<and>
              py_getitem f ''name'' = py_getitem (ts ! i) ''name'' \<and>
              py_getitem f ''description'' = py_getitem (ts ! i) ''description'' \<and>
              py_getitem f ''parameters'' = py_getitem (ts ! i) ''inputSchema'')"
  using assms
proof (induction ts)
  case Nil
  then show ?case by simp
next
  case (Cons t ts)
  then obtain out where out: "convert_tools ts = Inr out" "length out = length ts"
     and each: "\<forall>i < length ts. \<exists>f. py_getitem (out ! i) ''function'' = Inr f \<and>
              py_getitem f ''name'' = py_getitem (ts ! i) ''name'' \<and>
              py_getitem f ''description'' = py_getitem (ts ! i) ''description'' \<and>
              py_getitem f ''parameters'' = py_getitem (ts ! i) ''inputSchema''"
    by auto
  from Cons.prems obtain kvs n d s where t: "t = JObj kvs" "map_of kvs ''name'' = Some n"
      "map_of kvs ''description'' = Some d" "map_of kvs ''inputSchema'' = Some s"
    by auto
  let ?e = "openai_tool n d s"
  have conv: "convert_tools (t # ts) = Inr (?e # out)"
    using t out by simp
  have "\<exists>f. py_getitem ((?e # out) ! i) ''function'' = Inr f \<and>
              py_getitem f ''name'' = py_getitem ((t # ts) ! i) ''name'' \<and>
              py_getitem f ''description'' = py_getitem ((t # ts) ! i) ''description'' \<and>
              py_getitem f ''parameters'' = py_getitem ((t # ts) ! i) ''inputSchema''"
    if "i < length (t # ts)" for i
  proof (cases i)
    case 0
    then show ?thesis using t by (simp add: openai_tool_def)
  next
    case (Suc j)
    with that each show ?thesis by simp
  qed
  with conv out show ?case by simp
qed

text \<open>
  Every exception that the client and the agent raise by themselves derives from
  \<open>Exception\<close>; one that does not can only come from the collaborators of a turn.
\<close>

lemma py_json_loads_raises: "py_json_loads lib x = Inl e \<Longrightarrow> is_Exception e"
  by (cases x) (auto split: loads_outcome.splits)

lemma handle_response_raises: "handle_response r = Inl e \<Longrightarrow> is_Exception e"
  by (cases r) (auto simp: handle_response_def split: sum.splits if_splits option.splits bool.splits)

lemma send_request_raises: "send_request lib c method params = (c', Inl e) \<Longrightarrow> is_Exception e"
  by (cases "stdout_lines c")
     (auto simp: send_request_def Let_def simp del: py_json_loads.simps
        split: if_splits option.splits sum.splits
        dest: handle_response_raises py_json_loads_raises)

lemma py_get_raises: "py_get x k d = Inl e \<Longrightarrow> is_Exception e"
  by (cases x) auto

lemma py_getitem_raises: "py_getitem x k = Inl e \<Longrightarrow> is_Exception e"
  by (cases x) (auto split: option.splits)

lemma py_index0_raises: "py_index0 x = Inl e \<Longrightarrow> is_Exception e"
  by (induction x rule: py_index0.induct) auto

lemma py_iter_raises: "py_iter x = Inl e \<Longrightarrow> is_Exception e"
  by (cases x) auto

lemma first_text_raises: "first_text r = Inl e \<Longrightarrow> is_Exception e"
  by (auto simp: first_text_def split: sum.splits if_splits
      dest: py_get_raises py_index0_raises)

lemma unwrap_content_raises: "unwrap_content lib r = Inl e \<Longrightarrow> is_Exception e"
  by (auto simp: unwrap_content_def split: sum.splits if_splits
      dest: py_get_raises py_index0_raises py_json_loads_raises)

lemma read_resource_raises: "read_resource lib c uri = (c', Inl e) \<Longrightarrow> is_Exception e"
  by (auto simp: read_resource_def split: prod.splits sum.splits
      dest: send_request_raises first_text_raises)

lemma list_tools_raises: "list_tools lib c = (c', Inl e) \<Longrightarrow> is_Exception e"
  by (auto simp: list_tools_def split: prod.splits sum.splits
      dest: send_request_raises py_get_raises)

lemma call_tool_raises: "call_tool lib c name arguments = (c', Inl e) \<Longrightarrow> is_Exception e"
  by (auto simp: call_tool_def split: prod.splits sum.splits
      dest: send_request_raises unwrap_content_raises)

lemma get_game_state_raises: "get_game_state lib a = (a', Inl e) \<Longrightarrow> is_Exception e"
  by (auto simp: get_game_state_def split: prod.splits sum.splits
      dest: read_resource_raises py_json_loads_raises)

lemma convert_tools_raises: "convert_tools ts = Inl e \<Longrightarrow> is_Exception e"
  by (induction ts arbitrary: e)
     (auto split: sum.splits dest: py_get_raises py_getitem_raises)

lemma convert_raises: "convert_mcp_tools_to_openai_format a = Inl e \<Longrightarrow> is_Exception e"
  by (auto simp: convert_mcp_tools_to_openai_format_def split: sum.splits
      dest: py_iter_raises convert_tools_raises)

lemma run_tool_calls_raises: "run_tool_calls lib a tcs = (a', Inl e) \<Longrightarrow> is_Exception e"
proof (induction tcs arbitrary: a)
  case Nil
  then show ?case by simp
next
  case (Cons tc tcs)
  then show ?case
    by (auto simp: Let_def simp del: py_json_loads.simps split: sum.splits prod.splits
        dest: call_tool_raises py_json_loads_raises)
qed

lemma turn_body_raises:
  assumes "turn_body ev a = (a', Inl e)"
    and "\<forall>g x. construct_prompt ev g = Inl x \<longrightarrow> is_Exception x"
    and "\<forall>k p t x. llm ev k p t = Inl x \<longrightarrow> is_Exception x"
  shows "is_Exception e"
proof -
  obtain a1 r1 where g: "get_game_state (py ev) a = (a1, r1)"
    by (cases "get_game_state (py ev) a")
  show ?thesis
  proof (cases r1)
    case (Inl x)
    with g assms(1) have "x = e" by (simp add: turn_body_def)
    with g Inl show ?thesis using get_game_state_raises by blast
  next
    case game_state: (Inr game_state)
    show ?thesis
    proof (cases "construct_prompt ev game_state")
      case (Inl x)
      with g game_state assms(1) have "x = e" by (simp add: turn_body_def)
      with Inl assms(2) show ?thesis by blast
    next
      case prompt: (Inr prompt)
      let ?a2 = "say LogThinking a1"
      show ?thesis
      proof (cases "convert_mcp_tools_to_openai_format ?a2")
        case (Inl x)
        with g game_state prompt assms(1) have "x = e" by (simp add: turn_body_def Let_def)
        with Inl show ?thesis using convert_raises by blast
      next
        case tools: (Inr openai_tools)
        let ?arg = "if openai_tools \<noteq> [] then Some openai_tools else None"
        show ?thesis
        proof (cases "llm ev (turn_count ?a2) prompt ?arg")
          case (Inl x)
          with g game_state prompt tools assms(1) have "x = e"
            by (simp add: turn_body_def Let_def)
          with Inl assms(3) show ?thesis by blast
        next
          case message: (Inr message)
          from g game_state prompt tools message assms(1)
          have "\<exists>tcs. run_tool_calls (py ev) ?a2 tcs = (a', Inl e)"
            by (auto simp add: turn_body_def Let_def simp del: run_tool_calls.simps
                split: option.splits list.splits)
          then show ?thesis using run_tool_calls_raises by blast
        qed
      qed
    qed
  qed
qed

text \<open>A turn keeps the turn counter, and returns when its exceptions are caught.\<close>

lemma run_tool_calls_turn_count: "turn_count (fst (run_tool_calls lib a tcs)) = turn_count a"
  by (induction tcs arbitrary: a)
     (auto simp: Let_def say_def split: sum.splits prod.splits option.splits)

lemma turn_body_turn_count: "turn_count (fst (turn_body ev a)) = turn_count a"
proof -
  have "turn_count (fst (run_tool_calls (py ev) (say LogThinking (a\<lparr>mcp := c\<rparr>)) tcs))
      = turn_count a" for c tcs
    by (simp add: run_tool_calls_turn_count say_def)
  then show ?thesis
    by (auto simp add: turn_body_def get_game_state_def Let_def say_def
        simp del: run_tool_calls.simps
        split: prod.splits sum.splits option.splits list.splits)
qed

lemma execute_turn_caught:
  assumes "turn_body ev (say (LogTurn (turn_count a + 1)) (a\<lparr>turn_count := turn_count a + 1\<rparr>))
             = (a2, Inl e)"
    and "is_Exception e"
  shows "execute_turn ev a = (say (LogTurnError e) a2, Inr ())"
  using assms by (simp add: execute_turn_def Let_def)

lemma execute_turn_returns:
  assumes "\<forall>g x. construct_prompt ev g = Inl x \<longrightarrow> is_Exception x"
    and "\<forall>k p t x. llm ev k p t = Inl x \<longrightarrow> is_Exception x"
  shows "snd (execute_turn ev a) = Inr () \<and> turn_count (fst (execute_turn ev a)) = turn_count a + 1"
proof -
  let ?a1 = "say (LogTurn (turn_count a + 1)) (a\<lparr>turn_count := turn_count a + 1\<rparr>)"
  obtain a2 r where tb: "turn_body ev ?a1 = (a2, r)"
    by (cases "turn_body ev ?a1")
  from turn_body_turn_count [of ev ?a1] tb have tc: "turn_count a2 = turn_count a + 1"
    by (simp add: say_def)
  show ?thesis
  proof (cases r)
    case (Inl e)
    with tb assms have "is_Exception e" using turn_body_raises by blast
    with tb Inl tc show ?thesis by (simp add: execute_turn_def Let_def say_def)
  next
    case (Inr u)
    with tb tc show ?thesis by (simp add: execute_turn_def Let_def)
  qed
qed

lemma turn_loop_runs_on:
  assumes "\<forall>g x. construct_prompt ev g = Inl x \<longrightarrow> is_Exception x"
    and "\<forall>k p t x. llm ev k p t = Inl x \<longrightarrow> is_Exception x"
    and "\<forall>k. sleep ev k = None"
  shows "snd (turn_loop ev n a) = None \<and> turn_count (fst (turn_loop ev n a)) = turn_count a + int n"
proof (induction n arbitrary: a)
  case 0
  show ?case by simp
next
  case (Suc n)
  obtain a1 where a1: "execute_turn ev a = (a1, Inr ())" "turn_count a1 = turn_count a + 1"
    using execute_turn_returns [OF assms(1,2), of a]
    by (cases "execute_turn ev a") auto
  with assms(3) have "turn_loop ev (Suc n) a = turn_loop ev n a1" by simp
  with Suc [of a1] a1 show ?case by simp
qed

text \<open>Initialisation over well-formed tools, and the handler of \<open>main\<close>.\<close>

lemma print_tools_returns:
  assumes "\<forall>t \<in> set ts. \<exists>kvs nm. t = JObj kvs \<and> map_of kvs ''name'' = Some nm"
  shows "\<exists>evs. print_tools ts a = (a\<lparr>console := console a @ evs\<rparr>, Inr ())"
  using assms
proof (induction ts arbitrary: a)
  case Nil
  have "print_tools [] a = (a\<lparr>console := console a @ []\<rparr>, Inr ())" by simp
  then show ?case by blast
next
  case (Cons t ts)
  then obtain kvs nm where t: "t = JObj kvs" "map_of kvs ''name'' = Some nm" by auto
  let ?d = "case map_of kvs ''description'' of Some v \<Rightarrow> v | None \<Rightarrow> JStr ''No description''"
  let ?a1 = "say (LogTool nm ?d) a"
  from Cons obtain evs where "print_tools ts ?a1 = (?a1\<lparr>console := console ?a1 @ evs\<rparr>, Inr ())"
    by (meson list.set_intros(2))
  with t have "print_tools (t # ts) a = (a\<lparr>console := console a @ (LogTool nm ?d # evs)\<rparr>, Inr ())"
    by (simp add: say_def)
  then show ?case by blast
qed

lemma shutdown_Exception:
  "is_Exception e \<Longrightarrow>
     shutdown graceful con e =
       con @ [LogFatal e, LogCleanup, ProcTerminate] @ (if graceful then [] else [ProcKill]) @ [LogGoodbye]"
  by (cases e) (simp_all add: shutdown_def)

lemma initialize_tools_failed:
  "list_tools lib (mcp a) = (c1, Inl e) \<Longrightarrow> initialize lib a = (a\<lparr>mcp := c1\<rparr>, Inl e)"
  by (simp add: initialize_def)

text \<open>A turn, and the loop, once the server's output has ended.\<close>

lemma execute_turn_eof:
  assumes "stdin_open (mcp a)" and "stdout_lines (mcp a) = []"
  shows "execute_turn ev a =
    (a\<lparr>mcp := (mcp a)\<lparr>request_id := request_id (mcp a) + 1,
                      stdin_log := stdin_log (mcp a) @
                        [make_request (request_id (mcp a) + 1) ''resources/read''
                           (Some (JObj [(''uri'', JStr ''game://state'')]))]\<rparr>,
       turn_count := turn_count a + 1,
       console := console a @ [LogTurn (turn_count a + 1), LogTurnError RuntimeError_closed_stdout]\<rparr>,
     Inr ())"
  using assms
  by (simp add: execute_turn_def turn_body_def get_game_state_def read_resource_def
      send_request_eof say_def Let_def)

lemma turn_loop_eof:
  assumes "\<forall>k. sleep ev k = None"
  shows "stdin_open (mcp a) \<Longrightarrow> stdout_lines (mcp a) = [] \<Longrightarrow>
    snd (turn_loop ev n a) = None \<and> turn_count (fst (turn_loop ev n a)) = turn_count a + int n"
proof (induction n arbitrary: a)
  case 0
  show ?case by simp
next
  case (Suc n)
  obtain a1 where e: "execute_turn ev a = (a1, Inr ())" and o: "stdin_open (mcp a1)"
    and s: "stdout_lines (mcp a1) = []" and t: "turn_count a1 = turn_count a + 1"
    using execute_turn_eof [OF Suc.prems, of ev] Suc.prems by simp
  from e assms have "turn_loop ev (Suc n) a = turn_loop ev n a1"
    by simp
  with Suc.IH [OF o s] t show ?case by simp
qed

text \<open>The helpers of the client, and initialisation, once the server's output has ended.\<close>

lemma list_tools_eof:
  assumes "stdin_open c" and "stdout_lines c = []"
  shows "list_tools lib c =
    (c\<lparr>request_id := request_id c + 1,
       stdin_log := stdin_log c @ [make_request (request_id c + 1) ''tools/list'' None],
       stdout_lines := []\<rparr>, Inl RuntimeError_closed_stdout)"
  using assms by (simp add: list_tools_def send_request_eof)

lemma read_resource_eof:
  assumes "stdin_open c" and "stdout_lines c = []"
  shows "read_resource lib c uri =
    (c\<lparr>request_id := request_id c + 1,
       stdin_log := stdin_log c @ [make_request (request_id c + 1) ''resources/read''
                                     (Some (JObj [(''uri'', JStr uri)]))],
       stdout_lines := []\<rparr>, Inl RuntimeError_closed_stdout)"
  using assms by (simp add: read_resource_def send_request_eof)

lemma call_tool_eof:
  assumes "stdin_open c" and "stdout_lines c = []"
  shows "call_tool lib c name arguments =
    (c\<lparr>request_id := request_id c + 1,
       stdin_log := stdin_log c @ [make_request (request_id c + 1) ''tools/call''
                                     (Some (tool_call_params name arguments))],
       stdout_lines := []\<rparr>, Inl RuntimeError_closed_stdout)"
  using assms by (simp add: call_tool_def send_request_eof)

lemma initialize_summary_eof:
  assumes l: "list_tools lib (mcp a) = (c1, Inr (JList ts))"
    and wf: "\<forall>t \<in> set ts. \<exists>kvs nm. t = JObj kvs \<and> map_of kvs ''name'' = Some nm"
    and o: "stdin_open c1" and s: "stdout_lines c1 = []"
  shows "\<exists>evs. initialize lib a =
     (a\<lparr>mcp := c1\<lparr>request_id := request_id c1 + 1,
                    stdin_log := stdin_log c1 @
                      [make_request (request_id c1 + 1) ''resources/read''
                         (Some (JObj [(''uri'', JStr ''game://map/summary'')]))]\<rparr>,
        tools := JList ts,
        console := console a @ evs @ [LogMapWarning RuntimeError_closed_stdout]\<rparr>, Inr ())"
proof -
  let ?a1 = "say (LogToolsLoaded (length ts)) (a\<lparr>mcp := c1, tools := JList ts\<rparr>)"
  from print_tools_returns [OF wf, of ?a1]
  obtain evs where p: "print_tools ts ?a1 = (?a1\<lparr>console := console ?a1 @ evs\<rparr>, Inr ())"
    by blast
  from l p o s have "initialize lib a =
     (a\<lparr>mcp := c1\<lparr>request_id := request_id c1 + 1,
                    stdin_log := stdin_log c1 @
                      [make_request (request_id c1 + 1) ''resources/read''
                         (Some (JObj [(''uri'', JStr ''game://map/summary'')]))]\<rparr>,
        tools := JList ts,
        console := console a @ (LogToolsLoaded (length ts) # evs)
                   @ [LogMapWarning RuntimeError_closed_stdout]\<rparr>, Inr ())"
    by (simp add: initialize_def py_len_def say_def read_resource_eof)
  then show ?thesis by blast
qed

subsection \<open>MCPClient: requests and responses\<close>

text \<open>
  C7. When the parsed response is an object with an \<open>error\<close> field, \<open>send_request\<close>
  returns no result: it raises the \<open>RuntimeError\<close> whose message is made from that
  error value, code and message included. For the error
  \<open>{"code": -1, "message": "bad"}\<close> the exception holds code \<open>-1\<close> and message \<open>bad\<close>.
\<close>

theorem send_request_error_field:
  assumes "stdin_open c" and "stdout_lines c = line # rest"
    and "utf8_decode lib (line @ [CHR 0x0A]) = Some text"
    and "json_loads lib text = Loaded (JObj kvs)" and "map_of kvs ''error'' = Some err"
  shows "snd (send_request lib c method params) = Inl (RuntimeError_mcp_error err)"
  using assms by (simp add: send_request_reads handle_response_def)

theorem send_request_error_field_witness:
  "snd (send_request sample_lib (client_reading [line_error]) ''tools/call'' None)
     = Inl (RuntimeError_mcp_error (JObj [(''code'', JInt (- 1)), (''message'', JStr ''bad'')]))"
  using send_request_error_field [of "client_reading [line_error]" line_error "[]" sample_lib
      "line_error @ [CHR 0x0A]"
      "[(''jsonrpc'', JStr ''2.0''), (''id'', JInt 1), (''error'', error_bad)]"
      error_bad "''tools/call''" None]
  by (simp add: client_reading_def sample_lib_def sample_decoded sample_loaded response_of_def
      error_bad_def)




subsection \<open>MCPClient: unwrapping results\<close>

text \<open>
  C9 (as the code has it). When the result of a \<open>tools/call\<close> request has a content
  list whose first item carries a text, \<open>call_tool\<close> returns the value that text parses
  to, and the text itself when \<open>json.loads\<close> raises \<open>JSONDecodeError\<close> on it. Any other
  exception of \<open>json.loads\<close> is raised by \<open>call_tool\<close>.
\<close>

theorem call_tool_decodes_first_text:
  assumes "send_request lib c ''tools/call'' (Some (tool_call_params name arguments))
             = (c', Inr (JObj kvs))"
    and "map_of kvs ''content'' = Some (JList (JObj item # items))"
    and "map_of item ''text'' = Some (JStr text)"
  shows "call_tool lib c name arguments =
           (c', case json_loads lib text of
                  Loaded v \<Rightarrow> Inr v
                | Raises_JSONDecodeError \<Rightarrow> Inr (JStr text)
                | Raises_ValueError \<Rightarrow> Inl ValueError
                | Raises_RecursionError \<Rightarrow> Inl RecursionError)"
  using assms by (simp add: call_tool_def unwrap_content_def split: loads_outcome.splits)

theorem call_tool_decodes_first_text_witness:
  "call_tool sample_lib (client_reading [line_content_json]) ''game.get_player_actions'' (JObj [])
     = (\<lparr>request_id = 1,
         stdin_log = [make_request 1 ''tools/call''
                        (Some (tool_call_params ''game.get_player_actions'' (JObj [])))],
         stdin_open = True, stdout_lines = []\<rparr>,
        Inr (JList [JInt 1, JInt 2]))
   \<and> call_tool sample_lib (client_reading [line_content_raw]) ''game.send_intent'' (JObj [])
     = (\<lparr>request_id = 1,
         stdin_log = [make_request 1 ''tools/call''
                        (Some (tool_call_params ''game.send_intent'' (JObj [])))],
         stdin_open = True, stdout_lines = []\<rparr>,
        Inr (JStr ''Intent sent''))"
proof -
  let ?c1 = "client_reading [line_content_json]" and ?c2 = "client_reading [line_content_raw]"
  note ev = send_request_def Let_def client_reading_def sample_lib_def sample_decoded
    sample_loaded response_of_def handle_response_def
  have s1: "send_request sample_lib ?c1 ''tools/call''
              (Some (tool_call_params ''game.get_player_actions'' (JObj [])))
      = (\<lparr>request_id = 1,
         stdin_log = [make_request 1 ''tools/call''
                        (Some (tool_call_params ''game.get_player_actions'' (JObj [])))],
         stdin_open = True, stdout_lines = []\<rparr>,
         Inr (JObj [(''content'', JList [JObj [(''type'', JStr ''text''), (''text'', JStr ''[1, 2]'')]])]))"
    by (simp add: ev)
  have s2: "send_request sample_lib ?c2 ''tools/call''
              (Some (tool_call_params ''game.send_intent'' (JObj [])))
      = (\<lparr>request_id = 1,
         stdin_log = [make_request 1 ''tools/call''
                        (Some (tool_call_params ''game.send_intent'' (JObj [])))],
         stdin_open = True, stdout_lines = []\<rparr>,
         Inr (JObj [(''content'', JList [JObj [(''type'', JStr ''text''), (''text'', JStr ''Intent sent'')]])]))"
    by (simp add: ev)
  show ?thesis
    using call_tool_decodes_first_text [OF s1,
        of "[(''type'', JStr ''text''), (''text'', JStr ''[1, 2]'')]" "[]" "''[1, 2]''"]
      call_tool_decodes_first_text [OF s2,
        of "[(''type'', JStr ''text''), (''text'', JStr ''Intent sent'')]" "[]" "''Intent sent''"]
    by (simp add: sample_lib_def sample_loaded)
qed

text \<open>
  The claim as the specification words it fails: the first content item's text is an
  integer literal of 4301 digits. Decoding it fails with a \<open>ValueError\<close> that is not a
  \<open>JSONDecodeError\<close>, and \<open>call_tool\<close> raises it instead of returning the text.
\<close>

theorem decode_failure_raised_counterexample:
  "json_loads sample_lib big_int_text = Raises_ValueError
   \<and> snd (call_tool sample_lib (client_reading [line_content_big])
            ''game.get_player_actions'' (JObj []))
     = Inl ValueError"
  by (simp add: call_tool_def unwrap_content_def send_request_def Let_def client_reading_def
      sample_lib_def sample_decoded sample_loaded response_of_def handle_response_def)

text \<open>
  C10. When the result of a \<open>resources/read\<close> request is an object that has no
  \<open>contents\<close>, an empty \<open>contents\<close> list, or a first content item without a \<open>text\<close>,
  \<open>read_resource\<close> returns the empty string; when the result of a \<open>tools/call\<close> request
  has an empty \<open>content\<close> list, \<open>call_tool\<close> returns \<open>None\<close>. Neither raises.
\<close>

theorem missing_content_defaults:
  "(send_request lib c ''resources/read'' (Some (JObj [(''uri'', JStr uri)]))
      = (c', Inr (JObj kvs)) \<and>
    (map_of kvs ''contents'' = None \<or>
     map_of kvs ''contents'' = Some (JList []) \<or>
     (\<exists>item items. map_of kvs ''contents'' = Some (JList (JObj item # items)) \<and>
                   map_of item ''text'' = None))
    \<longrightarrow> read_resource lib c uri = (c', Inr (JStr [])))
   \<and>
   (send_request lib c ''tools/call'' (Some (tool_call_params name arguments))
      = (c', Inr (JObj kvs)) \<and>
    map_of kvs ''content'' = Some (JList [])
    \<longrightarrow> call_tool lib c name arguments = (c', Inr JNull))"
  by (auto simp: read_resource_def first_text_def call_tool_def unwrap_content_def)

theorem missing_content_defaults_witness:
  "read_resource sample_lib (client_reading [line_no_contents]) ''game://state''
     = (\<lparr>request_id = 1,
         stdin_log = [make_request 1 ''resources/read'' (Some (JObj [(''uri'', JStr ''game://state'')]))],
         stdin_open = True, stdout_lines = []\<rparr>, Inr (JStr []))
   \<and> read_resource sample_lib (client_reading [line_empty_contents]) ''game://state''
     = (\<lparr>request_id = 1,
         stdin_log = [make_request 1 ''resources/read'' (Some (JObj [(''uri'', JStr ''game://state'')]))],
         stdin_open = True, stdout_lines = []\<rparr>, Inr (JStr []))
   \<and> read_resource sample_lib (client_reading [line_no_text]) ''game://state''
     = (\<lparr>request_id = 1,
         stdin_log = [make_request 1 ''resources/read'' (Some (JObj [(''uri'', JStr ''game://state'')]))],
         stdin_open = True, stdout_lines = []\<rparr>, Inr (JStr []))
   \<and> call_tool sample_lib (client_reading [line_empty_content]) ''game.send_intent'' (JObj [])
     = (\<lparr>request_id = 1,
         stdin_log = [make_request 1 ''tools/call''
                        (Some (tool_call_params ''game.send_intent'' (JObj [])))],
         stdin_open = True, stdout_lines = []\<rparr>, Inr JNull)"
proof -
  let ?p = "Some (JObj [(''uri'', JStr ''game://state'')])"
  let ?q = "Some (tool_call_params ''game.send_intent'' (JObj []))"
  let ?c = "\<lambda>m p. \<lparr>request_id = 1, stdin_log = [make_request 1 m p],
                    stdin_open = True, stdout_lines = []\<rparr>"
  note ev = send_request_def Let_def client_reading_def sample_lib_def sample_decoded
    sample_loaded response_of_def handle_response_def
  have s1: "send_request sample_lib (client_reading [line_no_contents]) ''resources/read'' ?p
      = (?c ''resources/read'' ?p, Inr (JObj []))"
    by (simp add: ev)
  have s2: "send_request sample_lib (client_reading [line_empty_contents]) ''resources/read'' ?p
      = (?c ''resources/read'' ?p, Inr (JObj [(''contents'', JList [])]))"
    by (simp add: ev)
  have s3: "send_request sample_lib (client_reading [line_no_text]) ''resources/read'' ?p
      = (?c ''resources/read'' ?p,
         Inr (JObj [(''contents'', JList [JObj [(''uri'', JStr ''game://state'')]])]))"
    by (simp add: ev)
  have s4: "send_request sample_lib (client_reading [line_empty_content]) ''tools/call'' ?q
      = (?c ''tools/call'' ?q, Inr (JObj [(''content'', JList [])]))"
    by (simp add: ev)
  have r1: "read_resource sample_lib (client_reading [line_no_contents]) ''game://state''
      = (?c ''resources/read'' ?p, Inr (JStr []))"
    using missing_content_defaults [of sample_lib "client_reading [line_no_contents]"
        "''game://state''" "?c ''resources/read'' ?p" "[]"] s1
    by simp
  have r2: "read_resource sample_lib (client_reading [line_empty_contents]) ''game://state''
      = (?c ''resources/read'' ?p, Inr (JStr []))"
    using missing_content_defaults [of sample_lib "client_reading [line_empty_contents]"
        "''game://state''" "?c ''resources/read'' ?p" "[(''contents'', JList [])]"] s2
    by simp
  have r3: "read_resource sample_lib (client_reading [line_no_text]) ''game://state''
      = (?c ''resources/read'' ?p, Inr (JStr []))"
    using missing_content_defaults [of sample_lib "client_reading [line_no_text]"
        "''game://state''" "?c ''resources/read'' ?p"
        "[(''contents'', JList [JObj [(''uri'', JStr ''game://state'')]])]"] s3
    by simp
  have r4: "call_tool sample_lib (client_reading [line_empty_content]) ''game.send_intent'' (JObj [])
      = (?c ''tools/call'' ?q, Inr JNull)"
    using missing_content_defaults [of sample_lib "client_reading [line_empty_content]"
        _ "?c ''tools/call'' ?q" "[(''content'', JList [])]" "''game.send_intent''" "JObj []"] s4
    by simp
  from r1 r2 r3 r4 show ?thesis by simp
qed

subsection \<open>The diagnostic stream: noise\<close>

text \<open>
  C4 (as the code has it). Of the diagnostic lines that the reader thread gets to (the
  lines before the first one that is not valid UTF-8), a line is kept from the output
  exactly when its text contains one of the five noise substrings as written, letter
  case included, at any position; the white space stripped from the ends of the line
  plays no part. Every other such line is printed, in the order read.
\<close>

theorem noise_lines_suppressed:
  "printed (read_stderr lib lines st) =
     printed st @ map (\<lambda>text. ''[MCP Server] '' @ strip text)
                      (filter (\<lambda>text. \<not> is_noise text) (decoded_lines lib lines))
   \<and> (is_noise text \<longleftrightarrow> (\<exists>noise \<in> set noise_substrings. \<exists>p q. text = p @ noise @ q))"
proof -
  have "is_noise text \<longleftrightarrow> (\<exists>noise \<in> set noise_substrings. \<exists>p q. text = p @ noise @ q)"
    by (simp add: is_noise_def list_ex_iff str_in_iff)
  then show ?thesis by (simp add: printed_read_stderr)
qed

theorem noise_lines_suppressed_witness:
  "printed (read_stderr sample_lib
              [''Tick: 5'', ''  [debug] Game state updated ok '', ''Game connected successfully'',
               [CHR 0xFF], ''Server ready'']
              stderr_start)
     = [''[MCP Server] Game connected successfully'']"
  using noise_lines_suppressed [THEN conjunct1, of sample_lib
      "[''Tick: 5'', ''  [debug] Game state updated ok '', ''Game connected successfully'',
        [CHR 0xFF], ''Server ready'']" stderr_start]
  by (simp add: stderr_start_def is_noise_def noise_substrings_def strip_def is_space_def Let_def
      sample_lib_def sample_decode_def)

text \<open>
  The claim as the specification words it fails: the line \<open>tick: 5\<close> contains the
  noise substring \<open>Tick:\<close> when case is disregarded, and it is printed.
\<close>

theorem noise_casing_counterexample:
  "is_noise_any_case ''tick: 5'' \<and>
   printed (read_stderr sample_lib [''tick: 5''] stderr_start) = [''[MCP Server] tick: 5'']"
proof -
  have l1: "map lower_ascii ''Tick:'' = ''tick:''"
    by (simp add: lower_ascii_def)
  have l2: "map lower_ascii ''tick: 5'' = ''tick: 5''"
    by (simp add: lower_ascii_def)
  have "str_in_any_case ''Tick:'' ''tick: 5''"
    unfolding str_in_any_case_def l1 l2 by simp
  moreover have "''Tick:'' \<in> set noise_substrings"
    by (simp add: noise_substrings_def)
  ultimately have "is_noise_any_case ''tick: 5''"
    unfolding is_noise_any_case_def list_ex_iff by blast
  moreover have "printed (read_stderr sample_lib [''tick: 5''] stderr_start)
      = [''[MCP Server] tick: 5'']"
    by (simp add: noise_substrings_def stderr_start_def is_noise_def strip_def is_space_def
        Let_def sample_lib_def sample_decode_def)
  ultimately show ?thesis by simp
qed

subsection \<open>GameAgent: tools for the LLM\<close>

text \<open>
  C8. When the tools fetched from the server are descriptors with a name, a description
  and an input schema, \<open>convert_mcp_tools_to_openai_format\<close> returns a list with one
  entry per descriptor, in the same order, and the \<open>function\<close> part of each entry holds
  the descriptor's name as \<open>name\<close>, its description as \<open>description\<close> and its input
  schema as \<open>parameters\<close>, each unchanged.
\<close>

theorem convert_keeps_descriptors:
  assumes "tools a = JList ts"
    and "\<forall>t \<in> set ts. \<exists>kvs n d s. t = JObj kvs \<and> map_of kvs ''name'' = Some n \<and>
             map_of kvs ''description'' = Some d \<and> map_of kvs ''inputSchema'' = Some s"
  shows "\<exists>out. convert_mcp_tools_to_openai_format a = Inr out \<and> length out = length ts \<and>
           (\<forall>i < length ts. \<exists>f. py_getitem (out ! i) ''function'' = Inr f \<and>
              py_getitem f ''name'' = py_getitem (ts ! i) ''name'' \<and>
              py_getitem f ''description'' = py_getitem (ts ! i) ''description'' \<and>
              py_getitem f ''parameters'' = py_getitem (ts ! i) ''inputSchema'')"
  using convert_tools_entries [OF assms(2)] assms(1)
  by (simp add: convert_mcp_tools_to_openai_format_def)

theorem convert_keeps_descriptors_witness:
  "\<exists>out. convert_mcp_tools_to_openai_format ((agent_reading [])\<lparr>tools := JList [tool_send_intent]\<rparr>) = Inr out \<and>
      length out = 1 \<and>
      (\<exists>f. py_getitem (out ! 0) ''function'' = Inr f \<and>
         py_getitem f ''name'' = Inr (JStr ''game.send_intent'') \<and>
         py_getitem f ''description'' = Inr (JStr ''d'') \<and>
         py_getitem f ''parameters'' = Inr (JObj []))"
  using convert_keeps_descriptors [of "(agent_reading [])\<lparr>tools := JList [tool_send_intent]\<rparr>" "[tool_send_intent]"]
  by (simp add: tool_send_intent_def)

subsection \<open>GameAgent: executing the tool calls of a turn\<close>




subsection \<open>The turn loop\<close>

text \<open>
  C2. An exception raised in the body of a turn (while fetching the state, building the
  prompt, asking the LLM or executing tool calls) is caught by \<open>execute_turn\<close>, which
  logs it and returns; the loop goes on to the pause and from there to the next turn.
  So whatever the server answers, as long as the collaborators raise nothing but
  exceptions (an operator's interrupt is not one) and the pause is not interrupted, the
  loop is still running after any number of turns, and each turn has been counted.
\<close>

theorem turn_exceptions_do_not_end_loop:
  "(turn_body ev (say (LogTurn (turn_count a + 1)) (a\<lparr>turn_count := turn_count a + 1\<rparr>))
      = (a2, Inl e) \<and> is_Exception e \<longrightarrow>
      execute_turn ev a = (say (LogTurnError e) a2, Inr ()) \<and>
      turn_loop ev (Suc n) a =
        (case sleep ev (turn_count a2) of
           Some x \<Rightarrow> (say (LogTurnError e) a2, Some x)
         | None \<Rightarrow> turn_loop ev n (say (LogTurnError e) a2)))
   \<and>
   ((\<forall>g x. construct_prompt ev g = Inl x \<longrightarrow> is_Exception x) \<and>
    (\<forall>k p t x. llm ev k p t = Inl x \<longrightarrow> is_Exception x) \<and>
    (\<forall>k. sleep ev k = None) \<longrightarrow>
      snd (turn_loop ev n a) = None \<and>
      turn_count (fst (turn_loop ev n a)) = turn_count a + int n)"
proof -
  have "execute_turn ev a = (say (LogTurnError e) a2, Inr ()) \<and>
      turn_loop ev (Suc n) a =
        (case sleep ev (turn_count a2) of
           Some x \<Rightarrow> (say (LogTurnError e) a2, Some x)
         | None \<Rightarrow> turn_loop ev n (say (LogTurnError e) a2))"
    if "turn_body ev (say (LogTurn (turn_count a + 1)) (a\<lparr>turn_count := turn_count a + 1\<rparr>))
          = (a2, Inl e)" and "is_Exception e"
  proof -
    have "execute_turn ev a = (say (LogTurnError e) a2, Inr ())"
      using that by (rule execute_turn_caught)
    moreover have "turn_count (say (LogTurnError e) a2) = turn_count a2"
      by (simp add: say_def)
    ultimately show ?thesis by simp
  qed
  with turn_loop_runs_on [of ev n a] show ?thesis by blast
qed

theorem turn_exceptions_do_not_end_loop_witness:
  "execute_turn sample_env (agent_reading [line_error])
     = (\<lparr>mcp = \<lparr>request_id = 1,
                stdin_log = [make_request 1 ''resources/read''
                               (Some (JObj [(''uri'', JStr ''game://state'')]))],
                stdin_open = True, stdout_lines = []\<rparr>,
         tools = JList [], map_summary = JNull, turn_count = 1,
         console = [LogTurn 1, LogTurnError (RuntimeError_mcp_error error_bad)]\<rparr>,
        Inr ())
   \<and> snd (turn_loop sample_env 3 (agent_reading [line_error])) = None
   \<and> turn_count (fst (turn_loop sample_env 3 (agent_reading [line_error]))) = 3"
proof -
  let ?a = "agent_reading [line_error]"
  let ?a2 = "\<lparr>mcp = \<lparr>request_id = 1,
                stdin_log = [make_request 1 ''resources/read''
                               (Some (JObj [(''uri'', JStr ''game://state'')]))],
                stdin_open = True, stdout_lines = []\<rparr>,
         tools = JList [], map_summary = JNull, turn_count = 1,
         console = [LogTurn 1]\<rparr>"
  have tb: "turn_body sample_env (say (LogTurn (turn_count ?a + 1)) (?a\<lparr>turn_count := turn_count ?a + 1\<rparr>))
      = (?a2, Inl (RuntimeError_mcp_error error_bad))"
    by (simp add: turn_body_def get_game_state_def read_resource_def send_request_def Let_def
        handle_response_def response_of_def sample_env_def agent_reading_def new_agent_def
        client_reading_def say_def sample_lib_def sample_decoded sample_loaded)
  have env: "(\<forall>g x. construct_prompt sample_env g = Inl x \<longrightarrow> is_Exception x) \<and>
    (\<forall>k p t x. llm sample_env k p t = Inl x \<longrightarrow> is_Exception x) \<and>
    (\<forall>k. sleep sample_env k = None)"
    by (simp add: sample_env_def)
  have tc: "turn_count ?a = 0"
    by (simp add: agent_reading_def new_agent_def)
  from turn_exceptions_do_not_end_loop [of sample_env ?a ?a2 "RuntimeError_mcp_error error_bad" 3]
    tb env tc
  show ?thesis by (simp add: say_def)
qed

subsection \<open>Initialisation\<close>

text \<open>
  C5. When the \<open>tools/list\<close> request of \<open>initialize\<close> raises, \<open>initialize\<close> raises the
  same exception and \<open>main\<close> ends: it reports the fatal error, terminates the child
  (killing it when it does not exit in time) and runs no turn. When the tools are
  fetched and the read of the map summary raises, \<open>initialize\<close> returns normally: the
  exception is printed as a warning and the map summary stays unset.
\<close>

theorem tools_fetch_fatal_summary_optional:
  "(wait_for_connection queue = Inr ok \<and> list_tools (py ev) c = (c1, Inl e) \<longrightarrow>
      initialize (py ev) (new_agent c) = ((new_agent c)\<lparr>mcp := c1\<rparr>, Inl e) \<and>
      main ev queue c graceful n =
        Exited ([LogFatal e, LogCleanup, ProcTerminate]
                @ (if graceful then [] else [ProcKill]) @ [LogGoodbye]))
   \<and>
   (list_tools lib (mcp a) = (c1, Inr (JList ts)) \<and>
    (\<forall>t \<in> set ts. \<exists>kvs nm. t = JObj kvs \<and> map_of kvs ''name'' = Some nm) \<and>
    read_resource lib c1 ''game://map/summary'' = (c2, Inl e) \<longrightarrow>
      (\<exists>evs. initialize lib a =
         (a\<lparr>mcp := c2, tools := JList ts, console := console a @ evs @ [LogMapWarning e]\<rparr>,
          Inr ())))"
proof -
  have fatal: "initialize (py ev) (new_agent c) = ((new_agent c)\<lparr>mcp := c1\<rparr>, Inl e) \<and>
      main ev queue c graceful n =
        Exited ([LogFatal e, LogCleanup, ProcTerminate]
                @ (if graceful then [] else [ProcKill]) @ [LogGoodbye])"
    if w: "wait_for_connection queue = Inr ok"
      and l: "list_tools (py ev) c = (c1, Inl e)"
  proof -
    from l have "is_Exception e" by (rule list_tools_raises)
    then have sh: "shutdown graceful [] e = [LogFatal e, LogCleanup, ProcTerminate]
                @ (if graceful then [] else [ProcKill]) @ [LogGoodbye]"
      using shutdown_Exception [of e graceful "[]"] by simp
    from l have i: "initialize (py ev) (new_agent c) = ((new_agent c)\<lparr>mcp := c1\<rparr>, Inl e)"
      using initialize_tools_failed [of "py ev" "new_agent c" c1 e]
      by (simp add: new_agent_def)
    have "console ((new_agent c)\<lparr>mcp := c1\<rparr>) = []" by (simp add: new_agent_def)
    with w i sh show ?thesis by (simp add: main_def)
  qed
  have optional: "\<exists>evs. initialize lib a =
         (a\<lparr>mcp := c2, tools := JList ts, console := console a @ evs @ [LogMapWarning e]\<rparr>, Inr ())"
    if l: "list_tools lib (mcp a) = (c1, Inr (JList ts))"
      and wf: "\<forall>t \<in> set ts. \<exists>kvs nm. t = JObj kvs \<and> map_of kvs ''name'' = Some nm"
      and r: "read_resource lib c1 ''game://map/summary'' = (c2, Inl e)"
  proof -
    let ?a1 = "say (LogToolsLoaded (length ts)) (a\<lparr>mcp := c1, tools := JList ts\<rparr>)"
    from print_tools_returns [OF wf, of ?a1]
    obtain evs where p: "print_tools ts ?a1 = (?a1\<lparr>console := console ?a1 @ evs\<rparr>, Inr ())"
      by blast
    from r have "is_Exception e" by (rule read_resource_raises)
    with l p r have "initialize lib a =
        (a\<lparr>mcp := c2, tools := JList ts,
           console := console a @ (LogToolsLoaded (length ts) # evs) @ [LogMapWarning e]\<rparr>, Inr ())"
      by (simp add: initialize_def py_len_def say_def)
    then show ?thesis by blast
  qed
  from fatal optional show ?thesis by blast
qed

theorem tools_fetch_fatal_summary_optional_witness:
  "main sample_env [''Game connected successfully''] (client_reading [line_error]) True 5
     = Exited [LogFatal (RuntimeError_mcp_error error_bad), LogCleanup, ProcTerminate, LogGoodbye]
   \<and> snd (initialize sample_lib (agent_reading [line_one_tool, line_error])) = Inr ()
   \<and> map_summary (fst (initialize sample_lib (agent_reading [line_one_tool, line_error]))) = JNull
   \<and> console (fst (initialize sample_lib (agent_reading [line_one_tool, line_error])))
     = [LogToolsLoaded 1, LogTool (JStr ''game.send_intent'') (JStr ''d''),
        LogMapWarning (RuntimeError_mcp_error error_bad)]"
proof -
  let ?c = "client_reading [line_error]"
  let ?a = "agent_reading [line_one_tool, line_error]"
  note ev = sample_lib_def sample_decoded sample_loaded list_tools_def read_resource_def send_request_def Let_def handle_response_def
    response_of_def client_reading_def agent_reading_def new_agent_def
  let ?c1 = "\<lparr>request_id = 1, stdin_log = [make_request 1 ''tools/list'' None],
              stdin_open = True, stdout_lines = []\<rparr>"
  have w: "wait_for_connection [''Game connected successfully''] = Inr True"
    by simp
  have f: "list_tools (py sample_env) ?c = (?c1, Inl (RuntimeError_mcp_error error_bad))"
    by (simp add: ev sample_env_def)
  let ?d1 = "\<lparr>request_id = 1, stdin_log = [make_request 1 ''tools/list'' None],
              stdin_open = True, stdout_lines = [line_error]\<rparr>"
  let ?d2 = "\<lparr>request_id = 2,
              stdin_log = [make_request 1 ''tools/list'' None,
                           make_request 2 ''resources/read''
                             (Some (JObj [(''uri'', JStr ''game://map/summary'')]))],
              stdin_open = True, stdout_lines = []\<rparr>"
  have g: "list_tools sample_lib (mcp ?a) = (?d1, Inr (JList [tool_send_intent]))"
    by (simp add: ev)
  have h: "read_resource sample_lib ?d1 ''game://map/summary''
      = (?d2, Inl (RuntimeError_mcp_error error_bad))"
    by (simp add: ev)
  have wf: "\<forall>t \<in> set [tool_send_intent]. \<exists>kvs nm. t = JObj kvs \<and> map_of kvs ''name'' = Some nm"
    by (simp add: tool_send_intent_def)
  from tools_fetch_fatal_summary_optional [where queue = "[''Game connected successfully'']"
      and ok = True and ev = sample_env and c = ?c and ?c1.0 = ?c1
      and e = "RuntimeError_mcp_error error_bad" and graceful = True and n = 5] w f
  have fatal: "main sample_env [''Game connected successfully''] ?c True 5
      = Exited [LogFatal (RuntimeError_mcp_error error_bad), LogCleanup, ProcTerminate, LogGoodbye]"
    by simp
  from tools_fetch_fatal_summary_optional [where lib = sample_lib and a = ?a
      and ?c1.0 = ?d1 and ts = "[tool_send_intent]" and ?c2.0 = ?d2
      and e = "RuntimeError_mcp_error error_bad"] g h wf
  have optional: "\<exists>evs. initialize sample_lib ?a =
         (?a\<lparr>mcp := ?d2, tools := JList [tool_send_intent],
              console := console ?a @ evs @ [LogMapWarning (RuntimeError_mcp_error error_bad)]\<rparr>,
          Inr ())"
    by simp
  from optional have r: "snd (initialize sample_lib ?a) = Inr ()"
    and m: "map_summary (fst (initialize sample_lib ?a)) = JNull"
    by (auto simp: agent_reading_def new_agent_def)
  have con: "console (fst (initialize sample_lib ?a))
      = [LogToolsLoaded 1, LogTool (JStr ''game.send_intent'') (JStr ''d''),
         LogMapWarning (RuntimeError_mcp_error error_bad)]"
    using g h
    by (simp add: initialize_def py_len_def say_def tool_send_intent_def agent_reading_def
        new_agent_def)
  from fatal r m con show ?thesis by simp
qed

subsection \<open>End of input on the primary stream\<close>

text \<open>
  C6 (as the code has it). When \<open>readline\<close> returns the empty bytes of end-of-input,
  \<open>send_request\<close> raises the \<open>RuntimeError\<close> "MCP server closed stdout" and returns no
  result, and so does each helper built on it. What follows depends on where the call
  is made. At the \<open>tools/list\<close> request of initialisation the exception is fatal:
  \<open>main\<close> reports it and ends after the clean-up. At the read of the map summary it is
  only a warning: initialisation returns and the turn loop starts. Within a turn, at the
  state fetch or at a tool call, it is caught like any other exception of the turn: the
  turn logs it, and the loop goes on, turn after turn, for as long as the pause is not
  interrupted.
\<close>

theorem closed_stdout_fatal_only_at_start:
  "(stdin_open c \<and> stdout_lines c = [] \<longrightarrow>
      send_request lib c method params =
        (c\<lparr>request_id := request_id c + 1,
           stdin_log := stdin_log c @ [make_request (request_id c + 1) method params],
           stdout_lines := []\<rparr>,
         Inl RuntimeError_closed_stdout) \<and>
      snd (list_tools lib c) = Inl RuntimeError_closed_stdout \<and>
      snd (read_resource lib c uri) = Inl RuntimeError_closed_stdout \<and>
      snd (call_tool lib c name arguments) = Inl RuntimeError_closed_stdout \<and>
      (wait_for_connection queue = Inr ok \<longrightarrow>
         main ev queue c graceful n =
           Exited ([LogFatal RuntimeError_closed_stdout, LogCleanup, ProcTerminate]
                   @ (if graceful then [] else [ProcKill]) @ [LogGoodbye])))
   \<and>
   (wait_for_connection queue = Inr ok \<and>
    list_tools (py ev) c = (c1, Inr (JList ts)) \<and>
    (\<forall>t \<in> set ts. \<exists>kvs nm. t = JObj kvs \<and> map_of kvs ''name'' = Some nm) \<and>
    stdin_open c1 \<and> stdout_lines c1 = [] \<longrightarrow>
      (\<exists>evs. initialize (py ev) (new_agent c) =
         ((new_agent c)
            \<lparr>mcp := c1\<lparr>request_id := request_id c1 + 1,
                          stdin_log := stdin_log c1 @
                            [make_request (request_id c1 + 1) ''resources/read''
                               (Some (JObj [(''uri'', JStr ''game://map/summary'')]))]\<rparr>,
              tools := JList ts,
              console := evs @ [LogMapWarning RuntimeError_closed_stdout]\<rparr>, Inr ())) \<and>
      ((\<forall>k. sleep ev k = None) \<longrightarrow>
         is_StillLooping (main ev queue c graceful n) \<and>
         turn_count (looping_agent (main ev queue c graceful n)) = int n))
   \<and>
   (turn_body ev (say (LogTurn (turn_count a + 1)) (a\<lparr>turn_count := turn_count a + 1\<rparr>))
      = (a2, Inl RuntimeError_closed_stdout) \<longrightarrow>
      execute_turn ev a = (say (LogTurnError RuntimeError_closed_stdout) a2, Inr ()) \<and>
      turn_loop ev (Suc n) a =
        (case sleep ev (turn_count a2) of
           Some x \<Rightarrow> (say (LogTurnError RuntimeError_closed_stdout) a2, Some x)
         | None \<Rightarrow> turn_loop ev n (say (LogTurnError RuntimeError_closed_stdout) a2)))
   \<and>
   (stdin_open (mcp a) \<and> stdout_lines (mcp a) = [] \<longrightarrow>
      execute_turn ev a =
        (a\<lparr>mcp := (mcp a)\<lparr>request_id := request_id (mcp a) + 1,
                          stdin_log := stdin_log (mcp a) @
                            [make_request (request_id (mcp a) + 1) ''resources/read''
                               (Some (JObj [(''uri'', JStr ''game://state'')]))]\<rparr>,
           turn_count := turn_count a + 1,
           console := console a @ [LogTurn (turn_count a + 1),
                                   LogTurnError RuntimeError_closed_stdout]\<rparr>,
         Inr ()) \<and>
      ((\<forall>k. sleep ev k = None) \<longrightarrow>
         snd (turn_loop ev n a) = None \<and>
         turn_count (fst (turn_loop ev n a)) = turn_count a + int n))"
proof -
  have calls: "send_request lib c method params =
        (c\<lparr>request_id := request_id c + 1,
           stdin_log := stdin_log c @ [make_request (request_id c + 1) method params],
           stdout_lines := []\<rparr>,
         Inl RuntimeError_closed_stdout) \<and>
      snd (list_tools lib c) = Inl RuntimeError_closed_stdout \<and>
      snd (read_resource lib c uri) = Inl RuntimeError_closed_stdout \<and>
      snd (call_tool lib c name arguments) = Inl RuntimeError_closed_stdout"
    if "stdin_open c" and "stdout_lines c = []"
    using that by (simp add: send_request_eof list_tools_eof read_resource_eof call_tool_eof)
  have start: "main ev queue c graceful n =
           Exited ([LogFatal RuntimeError_closed_stdout, LogCleanup, ProcTerminate]
                   @ (if graceful then [] else [ProcKill]) @ [LogGoodbye])"
    if "stdin_open c" and "stdout_lines c = []" and "wait_for_connection queue = Inr ok"
    using that
    by (simp add: main_def initialize_def list_tools_eof new_agent_def shutdown_def)
  have summary: "(\<exists>evs. initialize (py ev) (new_agent c) =
         ((new_agent c)
            \<lparr>mcp := c1\<lparr>request_id := request_id c1 + 1,
                          stdin_log := stdin_log c1 @
                            [make_request (request_id c1 + 1) ''resources/read''
                               (Some (JObj [(''uri'', JStr ''game://map/summary'')]))]\<rparr>,
              tools := JList ts,
              console := evs @ [LogMapWarning RuntimeError_closed_stdout]\<rparr>, Inr ())) \<and>
      ((\<forall>k. sleep ev k = None) \<longrightarrow>
         is_StillLooping (main ev queue c graceful n) \<and>
         turn_count (looping_agent (main ev queue c graceful n)) = int n)"
    if w: "wait_for_connection queue = Inr ok"
      and l: "list_tools (py ev) c = (c1, Inr (JList ts))"
      and wf: "\<forall>t \<in> set ts. \<exists>kvs nm. t = JObj kvs \<and> map_of kvs ''name'' = Some nm"
      and o: "stdin_open c1" and s: "stdout_lines c1 = []"
  proof -
    from l have l': "list_tools (py ev) (mcp (new_agent c)) = (c1, Inr (JList ts))"
      by (simp add: new_agent_def)
    from initialize_summary_eof [OF l' wf o s]
    obtain evs where i: "initialize (py ev) (new_agent c) =
         ((new_agent c)
            \<lparr>mcp := c1\<lparr>request_id := request_id c1 + 1,
                          stdin_log := stdin_log c1 @
                            [make_request (request_id c1 + 1) ''resources/read''
                               (Some (JObj [(''uri'', JStr ''game://map/summary'')]))]\<rparr>,
              tools := JList ts,
              console := evs @ [LogMapWarning RuntimeError_closed_stdout]\<rparr>, Inr ())"
      by (auto simp: new_agent_def)
    let ?a1 = "(new_agent c)
            \<lparr>mcp := c1\<lparr>request_id := request_id c1 + 1,
                          stdin_log := stdin_log c1 @
                            [make_request (request_id c1 + 1) ''resources/read''
                               (Some (JObj [(''uri'', JStr ''game://map/summary'')]))]\<rparr>,
              tools := JList ts,
              console := evs @ [LogMapWarning RuntimeError_closed_stdout]\<rparr>"
    have loop: "is_StillLooping (main ev queue c graceful n) \<and>
         turn_count (looping_agent (main ev queue c graceful n)) = int n"
      if sl: "\<forall>k. sleep ev k = None"
    proof -
      have "stdin_open (mcp (say LogLoopStart ?a1))" "stdout_lines (mcp (say LogLoopStart ?a1)) = []"
        using o s by (simp_all add: say_def)
      from turn_loop_eof [OF sl this, of n]
      obtain a3 where t: "turn_loop ev n (say LogLoopStart ?a1) = (a3, None)"
        and tc: "turn_count a3 = int n"
        by (cases "turn_loop ev n (say LogLoopStart ?a1)") (auto simp: say_def new_agent_def)
      from w i t have "main ev queue c graceful n = StillLooping a3"
        by (simp add: main_def)
      with tc show ?thesis by simp
    qed
    from i loop show ?thesis by blast
  qed
  have caught: "execute_turn ev a = (say (LogTurnError RuntimeError_closed_stdout) a2, Inr ()) \<and>
      turn_loop ev (Suc n) a =
        (case sleep ev (turn_count a2) of
           Some x \<Rightarrow> (say (LogTurnError RuntimeError_closed_stdout) a2, Some x)
         | None \<Rightarrow> turn_loop ev n (say (LogTurnError RuntimeError_closed_stdout) a2))"
    if tb: "turn_body ev (say (LogTurn (turn_count a + 1)) (a\<lparr>turn_count := turn_count a + 1\<rparr>))
      = (a2, Inl RuntimeError_closed_stdout)"
  proof -
    have "execute_turn ev a = (say (LogTurnError RuntimeError_closed_stdout) a2, Inr ())"
      using tb by (intro execute_turn_caught) simp_all
    moreover have "turn_count (say (LogTurnError RuntimeError_closed_stdout) a2) = turn_count a2"
      by (simp add: say_def)
    ultimately show ?thesis by simp
  qed
  show ?thesis
    using calls start summary caught execute_turn_eof [of a ev] turn_loop_eof [of ev a n]
    by blast
qed

theorem closed_stdout_fatal_only_at_start_witness:
  "send_request sample_lib (client_reading []) ''tools/list'' None
     = (\<lparr>request_id = 1, stdin_log = [make_request 1 ''tools/list'' None],
         stdin_open = True, stdout_lines = []\<rparr>, Inl RuntimeError_closed_stdout)
   \<and> snd (call_tool sample_lib (client_reading []) ''game.send_intent'' (JObj []))
     = Inl RuntimeError_closed_stdout
   \<and> main sample_env [''Game connected successfully''] (client_reading []) False 5
     = Exited [LogFatal RuntimeError_closed_stdout, LogCleanup, ProcTerminate, ProcKill, LogGoodbye]
   \<and> snd (initialize sample_lib (agent_reading [line_one_tool])) = Inr ()
   \<and> is_StillLooping (main sample_env [''Game connected successfully'']
                          (client_reading [line_one_tool]) True 2)
   \<and> turn_count (looping_agent (main sample_env [''Game connected successfully'']
                                     (client_reading [line_one_tool]) True 2)) = 2
   \<and> execute_turn tool_env (agent_reading [line_state])
     = (\<lparr>mcp = \<lparr>request_id = 2,
                stdin_log = [make_request 1 ''resources/read''
                               (Some (JObj [(''uri'', JStr ''game://state'')])),
                             make_request 2 ''tools/call''
                               (Some (tool_call_params ''game.send_intent'' (JObj [])))],
                stdin_open = True, stdout_lines = []\<rparr>,
         tools = JList [], map_summary = JNull, turn_count = 1,
         console = [LogTurn 1, LogThinking, LogToolCall ''game.send_intent'' (JObj []),
                    LogTurnError RuntimeError_closed_stdout]\<rparr>, Inr ())
   \<and> execute_turn sample_env (agent_reading [])
     = (\<lparr>mcp = \<lparr>request_id = 1,
                stdin_log = [make_request 1 ''resources/read''
                               (Some (JObj [(''uri'', JStr ''game://state'')]))],
                stdin_open = True, stdout_lines = []\<rparr>,
         tools = JList [], map_summary = JNull, turn_count = 1,
         console = [LogTurn 1, LogTurnError RuntimeError_closed_stdout]\<rparr>, Inr ())
   \<and> snd (turn_loop sample_env 4 (agent_reading [])) = None
   \<and> turn_count (fst (turn_loop sample_env 4 (agent_reading []))) = 4"
proof -
  have w: "wait_for_connection [''Game connected successfully''] = Inr True"
    by simp
  have s: "\<forall>k. sleep sample_env k = None"
    by (simp add: sample_env_def)
  note ev = sample_lib_def sample_decoded sample_loaded send_request_def Let_def
    handle_response_def response_of_def client_reading_def agent_reading_def new_agent_def
  \<comment> \<open>end of input at the first request of the session\<close>
  from closed_stdout_fatal_only_at_start [of "client_reading []" sample_lib "''tools/list''" None
      "''game://state''" "''game.send_intent''" "JObj []"
      "[''Game connected successfully'']" True sample_env False 5]
    w
  have first: "send_request sample_lib (client_reading []) ''tools/list'' None
     = (\<lparr>request_id = 1, stdin_log = [make_request 1 ''tools/list'' None],
         stdin_open = True, stdout_lines = []\<rparr>, Inl RuntimeError_closed_stdout)"
    "snd (call_tool sample_lib (client_reading []) ''game.send_intent'' (JObj []))
     = Inl RuntimeError_closed_stdout"
    "main sample_env [''Game connected successfully''] (client_reading []) False 5
     = Exited [LogFatal RuntimeError_closed_stdout, LogCleanup, ProcTerminate, ProcKill, LogGoodbye]"
    by (simp_all add: client_reading_def)
  \<comment> \<open>end of input at the read of the map summary\<close>
  let ?c1 = "\<lparr>request_id = 1, stdin_log = [make_request 1 ''tools/list'' None],
              stdin_open = True, stdout_lines = []\<rparr>"
  have l: "list_tools (py sample_env) (client_reading [line_one_tool])
      = (?c1, Inr (JList [tool_send_intent]))"
    by (simp add: list_tools_def sample_env_def ev)
  have wf: "\<forall>t \<in> set [tool_send_intent]. \<exists>kvs nm. t = JObj kvs \<and> map_of kvs ''name'' = Some nm"
    by (simp add: tool_send_intent_def)
  from closed_stdout_fatal_only_at_start [where queue = "[''Game connected successfully'']"
      and ok = True and ev = sample_env and c = "client_reading [line_one_tool]"
      and ?c1.0 = ?c1 and ts = "[tool_send_intent]" and graceful = True and n = 2]
    w l wf s
  have summary: "\<exists>evs. initialize (py sample_env) (new_agent (client_reading [line_one_tool])) =
         ((new_agent (client_reading [line_one_tool]))
            \<lparr>mcp := ?c1\<lparr>request_id := request_id ?c1 + 1,
                          stdin_log := stdin_log ?c1 @
                            [make_request (request_id ?c1 + 1) ''resources/read''
                               (Some (JObj [(''uri'', JStr ''game://map/summary'')]))]\<rparr>,
              tools := JList [tool_send_intent],
              console := evs @ [LogMapWarning RuntimeError_closed_stdout]\<rparr>, Inr ())"
    and looping: "is_StillLooping (main sample_env [''Game connected successfully'']
                          (client_reading [line_one_tool]) True 2)"
      "turn_count (looping_agent (main sample_env [''Game connected successfully'']
                                     (client_reading [line_one_tool]) True 2)) = 2"
    by simp_all
  from summary have init: "snd (initialize sample_lib (agent_reading [line_one_tool])) = Inr ()"
    by (auto simp: sample_env_def agent_reading_def)
  \<comment> \<open>end of input at a tool call of a turn\<close>
  let ?a = "agent_reading [line_state]"
  let ?a2 = "\<lparr>mcp = \<lparr>request_id = 2,
                stdin_log = [make_request 1 ''resources/read''
                               (Some (JObj [(''uri'', JStr ''game://state'')])),
                             make_request 2 ''tools/call''
                               (Some (tool_call_params ''game.send_intent'' (JObj [])))],
                stdin_open = True, stdout_lines = []\<rparr>,
         tools = JList [], map_summary = JNull, turn_count = 1,
         console = [LogTurn 1, LogThinking, LogToolCall ''game.send_intent'' (JObj [])]\<rparr>"
  have tb: "turn_body tool_env (say (LogTurn (turn_count ?a + 1)) (?a\<lparr>turn_count := turn_count ?a + 1\<rparr>))
      = (?a2, Inl RuntimeError_closed_stdout)"
    by (simp add: turn_body_def get_game_state_def read_resource_def first_text_def
        convert_mcp_tools_to_openai_format_def call_tool_def call_send_intent_def
        tool_env_def say_def ev)
  from closed_stdout_fatal_only_at_start [where ev = tool_env and a = ?a and ?a2.0 = ?a2 and n = 0]
    tb
  have in_call: "execute_turn tool_env ?a
      = (say (LogTurnError RuntimeError_closed_stdout) ?a2, Inr ())"
    by simp
  \<comment> \<open>end of input at the state fetch of a turn\<close>
  from closed_stdout_fatal_only_at_start [where ev = sample_env and a = "agent_reading []"
      and n = 4] s
  have in_fetch: "execute_turn sample_env (agent_reading [])
     = (\<lparr>mcp = \<lparr>request_id = 1,
                stdin_log = [make_request 1 ''resources/read''
                               (Some (JObj [(''uri'', JStr ''game://state'')]))],
                stdin_open = True, stdout_lines = []\<rparr>,
         tools = JList [], map_summary = JNull, turn_count = 1,
         console = [LogTurn 1, LogTurnError RuntimeError_closed_stdout]\<rparr>, Inr ())"
    "snd (turn_loop sample_env 4 (agent_reading [])) = None"
    "turn_count (fst (turn_loop sample_env 4 (agent_reading []))) = 4"
    by (simp_all add: client_reading_def agent_reading_def new_agent_def)
  from first init looping in_call in_fetch show ?thesis
    by (simp add: say_def)
qed

text \<open>
  The claim as the specification words it fails: after an initialisation that went
  well, the server's output ends. The state fetch of the first turn raises on the empty
  read, and the session does not end: three turns later the loop is still running, each
  turn having logged the same error.
\<close>

theorem closed_stdout_in_turn_counterexample:
  "is_StillLooping (main sample_env [''Game connected successfully'']
                      (client_reading [line_one_tool, line_no_contents]) True 3)
   \<and> console (looping_agent (main sample_env [''Game connected successfully'']
                      (client_reading [line_one_tool, line_no_contents]) True 3))
     = [LogToolsLoaded 1, LogTool (JStr ''game.send_intent'') (JStr ''d''), LogMapLoaded,
        LogLoopStart,
        LogTurn 1, LogTurnError RuntimeError_closed_stdout,
        LogTurn 2, LogTurnError RuntimeError_closed_stdout,
        LogTurn 3, LogTurnError RuntimeError_closed_stdout]"
proof -
  let ?c = "client_reading [line_one_tool, line_no_contents]"
  let ?a1 = "\<lparr>mcp = \<lparr>request_id = 2,
              stdin_log = [make_request 1 ''tools/list'' None,
                           make_request 2 ''resources/read''
                             (Some (JObj [(''uri'', JStr ''game://map/summary'')]))],
              stdin_open = True, stdout_lines = []\<rparr>,
         tools = JList [tool_send_intent], map_summary = JStr [], turn_count = 0,
         console = [LogToolsLoaded (Suc 0), LogTool (JStr ''game.send_intent'') (JStr ''d''),
                    LogMapLoaded]\<rparr>"
  have i: "initialize (py sample_env) (new_agent ?c) = (?a1, Inr ())"
    by (simp add: initialize_def list_tools_def read_resource_def send_request_def Let_def
        handle_response_def response_of_def client_reading_def new_agent_def sample_env_def
        py_len_def say_def tool_send_intent_def first_text_def sample_lib_def sample_decoded
        sample_loaded)
  have t: "turn_loop sample_env (Suc (Suc (Suc 0))) (say LogLoopStart ?a1)
      = (\<lparr>mcp = \<lparr>request_id = 5,
              stdin_log = [make_request 1 ''tools/list'' None,
                           make_request 2 ''resources/read''
                             (Some (JObj [(''uri'', JStr ''game://map/summary'')])),
                           make_request 3 ''resources/read''
                             (Some (JObj [(''uri'', JStr ''game://state'')])),
                           make_request 4 ''resources/read''
                             (Some (JObj [(''uri'', JStr ''game://state'')])),
                           make_request 5 ''resources/read''
                             (Some (JObj [(''uri'', JStr ''game://state'')]))],
              stdin_open = True, stdout_lines = []\<rparr>,
         tools = JList [tool_send_intent], map_summary = JStr [], turn_count = 3,
         console = [LogToolsLoaded (Suc 0), LogTool (JStr ''game.send_intent'') (JStr ''d''),
                    LogMapLoaded, LogLoopStart,
                    LogTurn 1, LogTurnError RuntimeError_closed_stdout,
                    LogTurn 2, LogTurnError RuntimeError_closed_stdout,
                    LogTurn 3, LogTurnError RuntimeError_closed_stdout]\<rparr>, None)"
    by (simp add: execute_turn_eof say_def sample_env_def)
  have m: "main sample_env [''Game connected successfully''] ?c True 3
      = (case turn_loop sample_env (Suc (Suc (Suc 0))) (say LogLoopStart ?a1) of
           (a2, Some e) \<Rightarrow> Exited (shutdown True (console a2) e)
         | (a2, None) \<Rightarrow> StillLooping a2)"
    by (simp add: main_def i numeral_3_eq_3 del: turn_loop.simps)
  show ?thesis unfolding m t by simp
qed

end
